theory Spec2Isabelle
  imports Complex_Main
begin

section \<open>JavaScript numbers\<close>

text \<open>
  A JavaScript \<^verbatim>\<open>number\<close> is modelled as a real number or one of the three special
  values of IEEE 754: \<open>PInf\<close> (\<^verbatim>\<open>Infinity\<close>), \<open>NInf\<close> (\<^verbatim>\<open>-Infinity\<close>) and \<open>NaN\<close>.
  Arithmetic on finite values is exact real arithmetic: rounding, overflow of finite values,
  the sign of zero and the narrowing to 32 bits of a \<^verbatim>\<open>Float32Array\<close> store are not modelled.
  The special values follow IEEE 754 as ECMAScript prescribes.
\<close>

datatype fl = Fin real | PInf | NInf | NaN

instantiation fl :: plus
begin

fun plus_fl :: "fl \<Rightarrow> fl \<Rightarrow> fl" where
  "plus_fl (Fin a) (Fin b) = Fin (a + b)"
| "plus_fl NaN _ = NaN"
| "plus_fl _ NaN = NaN"
| "plus_fl PInf NInf = NaN"
| "plus_fl NInf PInf = NaN"
| "plus_fl PInf _ = PInf"
| "plus_fl _ PInf = PInf"
| "plus_fl NInf _ = NInf"
| "plus_fl _ NInf = NInf"

instance ..

end

instantiation fl :: uminus
begin

fun uminus_fl :: "fl \<Rightarrow> fl" where
  "uminus_fl (Fin a) = Fin (- a)"
| "uminus_fl PInf = NInf"
| "uminus_fl NInf = PInf"
| "uminus_fl NaN = NaN"

instance ..

end

instantiation fl :: minus
begin

definition minus_fl :: "fl \<Rightarrow> fl \<Rightarrow> fl" where
  "minus_fl a b = a + (- b)"

instance ..

end

text \<open>
  The sign of a number that is not \<open>NaN\<close>: \<open>-1\<close>, \<open>0\<close> or
  \<open>1\<close>.
\<close>

fun sign_fl :: "fl \<Rightarrow> real" where
  "sign_fl (Fin a) = sgn a"
| "sign_fl PInf = 1"
| "sign_fl NInf = - 1"
| "sign_fl NaN = 0"

definition inf_of_sign :: "real \<Rightarrow> fl" where
  "inf_of_sign g = (if g = 0 then NaN else if 0 < g then PInf else NInf)"

instantiation fl :: times
begin

fun times_fl :: "fl \<Rightarrow> fl \<Rightarrow> fl" where
  "times_fl (Fin a) (Fin b) = Fin (a * b)"
| "times_fl NaN _ = NaN"
| "times_fl _ NaN = NaN"
| "times_fl a b = inf_of_sign (sign_fl a * sign_fl b)"

instance ..

end

instantiation fl :: inverse
begin

fun divide_fl :: "fl \<Rightarrow> fl \<Rightarrow> fl" where
  "divide_fl (Fin a) (Fin b) = (if b = 0 then inf_of_sign (sgn a) else Fin (a / b))"
| "divide_fl NaN _ = NaN"
| "divide_fl _ NaN = NaN"
| "divide_fl (Fin a) _ = Fin 0"
| "divide_fl PInf (Fin b) = (if 0 \<le> b then PInf else NInf)"
| "divide_fl NInf (Fin b) = (if 0 \<le> b then NInf else PInf)"
| "divide_fl _ _ = NaN"

fun inverse_fl :: "fl \<Rightarrow> fl" where
  "inverse_fl (Fin a) = (if a = 0 then PInf else Fin (1 / a))"
| "inverse_fl NaN = NaN"
| "inverse_fl _ = Fin 0"

instance ..

end

instantiation fl :: ord
begin

fun less_fl :: "fl \<Rightarrow> fl \<Rightarrow> bool" where
  "less_fl (Fin a) (Fin b) = (a < b)"
| "less_fl NaN _ = False"
| "less_fl _ NaN = False"
| "less_fl _ NInf = False"
| "less_fl PInf _ = False"
| "less_fl NInf _ = True"
| "less_fl _ PInf = True"

fun less_eq_fl :: "fl \<Rightarrow> fl \<Rightarrow> bool" where
  "less_eq_fl (Fin a) (Fin b) = (a \<le> b)"
| "less_eq_fl NaN _ = False"
| "less_eq_fl _ NaN = False"
| "less_eq_fl NInf _ = True"
| "less_eq_fl _ PInf = True"
| "less_eq_fl _ _ = False"

instance ..

end

text \<open>
  \<^verbatim>\<open>Math.max\<close>, \<^verbatim>\<open>Math.min\<close>: \<open>NaN\<close> as
  soon as one argument is \<open>NaN\<close>.
\<close>

definition Math_max :: "fl \<Rightarrow> fl \<Rightarrow> fl" where
  "Math_max a b = (if a = NaN \<or> b = NaN then NaN else if a < b then b else a)"

definition Math_min :: "fl \<Rightarrow> fl \<Rightarrow> fl" where
  "Math_min a b = (if a = NaN \<or> b = NaN then NaN else if b < a then b else a)"

fun Math_sqrt :: "fl \<Rightarrow> fl" where
  "Math_sqrt (Fin a) = (if a < 0 then NaN else Fin (sqrt a))"
| "Math_sqrt PInf = PInf"
| "Math_sqrt NInf = NaN"
| "Math_sqrt NaN = NaN"

fun Math_cos :: "fl \<Rightarrow> fl" where
  "Math_cos (Fin a) = Fin (cos a)"
| "Math_cos _ = NaN"

fun Math_sin :: "fl \<Rightarrow> fl" where
  "Math_sin (Fin a) = Fin (sin a)"
| "Math_sin _ = NaN"

text \<open>
  \<^verbatim>\<open>Math.atan2(y, x)\<close>: the angle of the point \<open>(x, y)\<close>, in
  \<open>(-\<pi>, \<pi>]\<close>.
\<close>

definition atan2_real :: "real \<Rightarrow> real \<Rightarrow> real" where
  "atan2_real b a =
     (if 0 < a then arctan (b / a)
      else if a < 0 then (if 0 \<le> b then arctan (b / a) + pi else arctan (b / a) - pi)
      else if 0 < b then pi / 2
      else if b < 0 then - (pi / 2)
      else 0)"

fun Math_atan2 :: "fl \<Rightarrow> fl \<Rightarrow> fl" where
  "Math_atan2 (Fin b) (Fin a) = Fin (atan2_real b a)"
| "Math_atan2 NaN _ = NaN"
| "Math_atan2 _ NaN = NaN"
| "Math_atan2 (Fin b) PInf = Fin 0"
| "Math_atan2 (Fin b) NInf = (if 0 \<le> b then Fin pi else Fin (- pi))"
| "Math_atan2 PInf (Fin a) = Fin (pi / 2)"
| "Math_atan2 NInf (Fin a) = Fin (- (pi / 2))"
| "Math_atan2 PInf PInf = Fin (pi / 4)"
| "Math_atan2 PInf NInf = Fin (3 * pi / 4)"
| "Math_atan2 NInf PInf = Fin (- (pi / 4))"
| "Math_atan2 NInf NInf = Fin (- (3 * pi / 4))"

fun isFinite :: "fl \<Rightarrow> bool" where
  "isFinite (Fin a) = True"
| "isFinite _ = False"

text \<open>
  \<^verbatim>\<open>THREE.MathUtils.lerp(x, y, t)\<close> of the three.js library, which the simulation uses for
  every smoothing step: \<^verbatim>\<open>(1 - t) * x + t * y\<close>.
\<close>

definition lerp :: "fl \<Rightarrow> fl \<Rightarrow> fl \<Rightarrow> fl" where
  "lerp x y t = (Fin 1 - t) * x + t * y"

section \<open>Configuration, derived quantities and persistent state\<close>

text \<open>
  \<^verbatim>\<open>SimulationParams\<close> of \<^verbatim>\<open>types.ts\<close>, with the fields the simulation and the Rayleigh number
  read. \<^verbatim>\<open>densityEffect\<close> is optional in the source.
\<close>

record SimulationParams =
  containerRadius :: fl
  containerHeight :: fl
  tempSurface :: fl
  tempFluidInitial :: fl
  boilingPoint :: fl
  density :: fl
  expansionCoefficient :: fl
  viscosityDynamic :: fl
  thermalDiffusivity :: fl
  gravity :: fl
  particleCount :: nat
  densityEffect :: "fl option"

datatype FlowRegime = Conductive | Laminar_Convection | Turbulent_Convection | Boiling_Phase_Change

datatype FluidState = liquid | gas

text \<open>
  The derived quantities of \<^verbatim>\<open>App.tsx\<close> (\<^verbatim>\<open>computed\<close>) that decide the flow regime. The Nusselt
  number and the heat transfer figures, which nothing below reads, are left out.
  \<^verbatim>\<open>Math.pow(h, 3)\<close> is written as a product.
\<close>

record ComputedValues =
  rayleigh :: fl
  prandtl :: fl
  avgFluidTemp :: fl
  flowRegime :: FlowRegime
  fluidState :: FluidState

definition computed :: "SimulationParams \<Rightarrow> ComputedValues" where
  "computed ps =
     (let kinematicViscosity = viscosityDynamic ps / density ps;
          prandtl = kinematicViscosity / thermalDiffusivity ps;
          deltaT = Math_max (Fin 0) (tempSurface ps - tempFluidInitial ps);
          rayleigh =
            (gravity ps * expansionCoefficient ps * deltaT
               * (containerHeight ps * containerHeight ps * containerHeight ps))
            / (kinematicViscosity * thermalDiffusivity ps);
          estimatedInternalTemp = tempFluidInitial ps + deltaT * Fin 0.4
      in if boilingPoint ps \<le> estimatedInternalTemp \<or> boilingPoint ps < tempSurface ps
         then \<lparr>rayleigh = rayleigh, prandtl = prandtl, avgFluidTemp = estimatedInternalTemp,
               flowRegime = Boiling_Phase_Change, fluidState = gas\<rparr>
         else if Fin 1708 < rayleigh
         then \<lparr>rayleigh = rayleigh, prandtl = prandtl, avgFluidTemp = estimatedInternalTemp,
               flowRegime =
                 (if Fin 1000000000 < rayleigh then Turbulent_Convection else Laminar_Convection),
               fluidState = liquid\<rparr>
         else \<lparr>rayleigh = rayleigh, prandtl = prandtl, avgFluidTemp = estimatedInternalTemp,
               flowRegime = Conductive, fluidState = liquid\<rparr>)"

text \<open>
  The smoothed parameters of \<^verbatim>\<open>simState\<close> and the running average
  temperature.
\<close>

record simState =
  s_tempSurface :: fl
  s_tempFluidInitial :: fl
  s_gravity :: fl
  s_viscosity :: fl
  s_expansion :: fl
  s_diffusivity :: fl
  s_density :: fl
  s_avgSystemTemp :: fl

definition init_simState :: "SimulationParams \<Rightarrow> simState" where
  "init_simState ps =
     \<lparr>s_tempSurface = tempSurface ps,
      s_tempFluidInitial = tempFluidInitial ps,
      s_gravity = gravity ps,
      s_viscosity = viscosityDynamic ps,
      s_expansion = expansionCoefficient ps,
      s_diffusivity = thermalDiffusivity ps,
      s_density = density ps,
      s_avgSystemTemp = tempFluidInitial ps\<rparr>"

text \<open>
  One particle: the entries of the columnar arrays \<^verbatim>\<open>positions\<close>, \<^verbatim>\<open>velocities\<close>,
  \<^verbatim>\<open>temperatures\<close>, \<^verbatim>\<open>colors\<close>, \<^verbatim>\<open>state\<close> (0 liquid, 1 gas) and \<^verbatim>\<open>meta\<close> at one index.
  Iteration \<open>i\<close> of either loop of the source touches the entries of index \<open>i\<close> only.
\<close>

record particle =
  pos_x :: fl
  pos_y :: fl
  pos_z :: fl
  vel_x :: fl
  vel_y :: fl
  vel_z :: fl
  temp :: fl
  col_r :: fl
  col_g :: fl
  col_b :: fl
  pstate :: nat
  meta :: fl

text \<open>
  \<^verbatim>\<open>Math.random()\<close>: the sequence of its results is a parameter \<open>rnd\<close>, and the number of
  draws made so far is threaded through the computation. Every result lies in \<open>[0, 1)\<close>.
\<close>

definition Math_random :: "(nat \<Rightarrow> real) \<Rightarrow> nat \<Rightarrow> fl" where
  "Math_random rnd k = Fin (rnd k)"

definition random_ok :: "(nat \<Rightarrow> real) \<Rightarrow> bool" where
  "random_ok rnd = (\<forall>k. 0 \<le> rnd k \<and> rnd k < 1)"

section \<open>Ensemble initializer\<close>

definition init_particle :: "SimulationParams \<Rightarrow> (nat \<Rightarrow> real) \<Rightarrow> nat \<Rightarrow> particle" where
  "init_particle ps rnd k =
     (let r = Math_max (Fin 0.001)
                (Math_sqrt (Math_random rnd k) * containerRadius ps * Fin 0.9);
          theta = Math_random rnd (k + 1) * Fin 2 * Fin pi
      in \<lparr>pos_x = r * Math_cos theta,
          pos_y = (Math_random rnd (k + 2) - Fin 0.5) * containerHeight ps,
          pos_z = r * Math_sin theta,
          vel_x = Fin 0, vel_y = Fin 0, vel_z = Fin 0,
          temp = tempFluidInitial ps,
          col_r = Fin 0, col_g = Fin 0, col_b = Fin 0,
          pstate = 0,
          meta = Fin 0.8 + Math_random rnd (k + 3) * Fin 0.4\<rparr>)"

fun init_loop :: "SimulationParams \<Rightarrow> (nat \<Rightarrow> real) \<Rightarrow> nat \<Rightarrow> nat \<Rightarrow> particle list" where
  "init_loop ps rnd k 0 = []"
| "init_loop ps rnd k (Suc n) = init_particle ps rnd k # init_loop ps rnd (k + 4) n"

text \<open>
  The state of one mounted \<^verbatim>\<open>FluidSystem\<close>: the smoothed parameters, the particle arrays and
  the number of random draws made. The component is keyed by the particle count and the
  arrays are allocated with it, so the arrays hold exactly \<^verbatim>\<open>params.particleCount\<close> particles.
\<close>

record world =
  sim :: simState
  particles :: "particle list"
  drawn :: nat

definition mount :: "SimulationParams \<Rightarrow> (nat \<Rightarrow> real) \<Rightarrow> world" where
  "mount ps rnd =
     \<lparr>sim = init_simState ps,
      particles = init_loop ps rnd 0 (particleCount ps),
      drawn = 4 * particleCount ps\<rparr>"

section \<open>The per-frame update\<close>

subsection \<open>Parameter smoothing and per-frame constants\<close>

definition lerpRate :: fl where
  "lerpRate = Fin 0.05"

definition smooth :: "SimulationParams \<Rightarrow> simState \<Rightarrow> simState" where
  "smooth ps s =
     s\<lparr>s_tempSurface := lerp (s_tempSurface s) (tempSurface ps) lerpRate,
       s_tempFluidInitial := lerp (s_tempFluidInitial s) (tempFluidInitial ps) lerpRate,
       s_gravity := lerp (s_gravity s) (gravity ps) lerpRate,
       s_viscosity := lerp (s_viscosity s) (viscosityDynamic ps) lerpRate,
       s_expansion := lerp (s_expansion s) (expansionCoefficient ps) lerpRate,
       s_diffusivity := lerp (s_diffusivity s) (thermalDiffusivity ps) lerpRate,
       s_density := lerp (s_density s) (density ps) lerpRate\<rparr>"

definition halfH :: "SimulationParams \<Rightarrow> fl" where
  "halfH ps = containerHeight ps / Fin 2"

text \<open>
  \<^verbatim>\<open>params.densityEffect || 1.0\<close>: an absent field, zero and
  \<open>NaN\<close> are falsy.
\<close>

definition densityFactor :: "SimulationParams \<Rightarrow> fl" where
  "densityFactor ps =
     (case densityEffect ps of
        None \<Rightarrow> Fin 1
      | Some d \<Rightarrow> if d = Fin 0 \<or> d = NaN then Fin 1 else d)"

definition safeDensity :: "simState \<Rightarrow> fl" where
  "safeDensity s = Math_max (Fin 1) (s_density s)"

definition inertiaFactor :: "SimulationParams \<Rightarrow> simState \<Rightarrow> fl" where
  "inertiaFactor ps s = Math_max (Fin 0.01) (safeDensity s * Fin 0.001 * densityFactor ps)"

definition dragCoeff :: "SimulationParams \<Rightarrow> simState \<Rightarrow> fl" where
  "dragCoeff ps s = (s_viscosity s * Fin 100) / inertiaFactor ps s"

definition dragFactor :: "SimulationParams \<Rightarrow> simState \<Rightarrow> fl \<Rightarrow> fl" where
  "dragFactor ps s dt = Math_max (Fin 0) (Math_min (Fin 0.999) (Fin 1 - dragCoeff ps s * dt))"

definition thermalRate :: "simState \<Rightarrow> fl" where
  "thermalRate s = s_diffusivity s * Fin 80000"

definition canConvect :: "ComputedValues \<Rightarrow> bool" where
  "canConvect cv = (Fin 1000 < rayleigh cv)"

definition MAX_VELOCITY :: fl where
  "MAX_VELOCITY = Fin 10"

subsection \<open>One particle\<close>

text \<open>
  The steps of the loop body update a particle in place. The position fields stand for the
  locals \<^verbatim>\<open>x\<close>, \<^verbatim>\<open>y\<close>, \<^verbatim>\<open>z\<close>, which the source writes back at the end of the iteration;
  the radius \<^verbatim>\<open>r\<close> is computed from the position at the start of the iteration.
\<close>

definition radial :: "particle \<Rightarrow> fl" where
  "radial p = Math_sqrt (pos_x p * pos_x p + pos_z p * pos_z p)"

text \<open>
  A. Thermal physics: conduction at the bottom, cooling at the walls and the top, bulk mixing.
\<close>

definition conduction :: "SimulationParams \<Rightarrow> simState \<Rightarrow> fl \<Rightarrow> particle \<Rightarrow> particle" where
  "conduction ps s dt p =
     (let distToSurface = pos_y p + halfH ps
      in if distToSurface < Fin 0.02
         then (let contactFactor = Math_max (Fin 0) (Fin 1 - distToSurface / Fin 0.02)
               in p\<lparr>temp := lerp (temp p) (s_tempSurface s)
                                (thermalRate s * Fin 20 * contactFactor * dt)\<rparr>)
         else p)"

definition cooling :: "SimulationParams \<Rightarrow> simState \<Rightarrow> fl \<Rightarrow> particle \<Rightarrow> particle" where
  "cooling ps s dt p =
     (let distToWall = containerRadius ps - radial p
      in if distToWall < Fin 0.015 \<or> halfH ps - pos_y p < Fin 0.01
         then p\<lparr>temp := lerp (temp p) (s_tempFluidInitial s) (thermalRate s * Fin 5 * dt)\<rparr>
         else p)"

definition bulkMixing :: "simState \<Rightarrow> fl \<Rightarrow> bool \<Rightarrow> particle \<Rightarrow> particle" where
  "bulkMixing s dt cc p =
     (if cc then p\<lparr>temp := lerp (temp p) (s_avgSystemTemp s) (thermalRate s * Fin 0.1 * dt)\<rparr>
      else p)"

definition thermalPhysics ::
  "SimulationParams \<Rightarrow> simState \<Rightarrow> fl \<Rightarrow> bool \<Rightarrow> particle \<Rightarrow> particle" where
  "thermalPhysics ps s dt cc p = bulkMixing s dt cc (cooling ps s dt (conduction ps s dt p))"

text \<open>
  B. Forces. The buoyancy and boiling step yields the phase written to \<^verbatim>\<open>state[i]\<close> and the
  vertical force; the toroidal heuristic yields the horizontal force; the jitter draws three
  random numbers.
\<close>

definition tempDiff :: "simState \<Rightarrow> particle \<Rightarrow> fl" where
  "tempDiff s p = temp p - s_avgSystemTemp s"

definition buoyancy :: "simState \<Rightarrow> particle \<Rightarrow> fl" where
  "buoyancy s p = s_gravity s * s_expansion s * tempDiff s p * Fin 250"

definition boiling :: "SimulationParams \<Rightarrow> simState \<Rightarrow> particle \<Rightarrow> nat \<times> fl" where
  "boiling ps s p =
     (if boilingPoint ps < temp p then (1, Fin 0 + s_gravity s * Fin 2)
      else (0, Fin 0 + buoyancy s p))"

definition toroidal :: "SimulationParams \<Rightarrow> simState \<Rightarrow> bool \<Rightarrow> particle \<Rightarrow> fl \<times> fl" where
  "toroidal ps s cc p =
     (let r = radial p
      in if cc \<and> Fin 0.001 < r
         then (let rNorm = r / containerRadius ps;
                   yNorm = (pos_y p + halfH ps) / containerHeight ps;
                   (fx, fz) =
                     (if Fin 0 < tempDiff s p \<and> Fin 0.8 < yNorm
                      then (let spread = Fin 2 * rNorm
                            in (Fin 0 + (pos_x p / r) * spread, Fin 0 + (pos_z p / r) * spread))
                      else (Fin 0, Fin 0))
               in if tempDiff s p < Fin 0 \<and> yNorm < Fin 0.2
                  then (let suck = Fin 2
                        in (fx - (pos_x p / r) * suck, fz - (pos_z p / r) * suck))
                  else (fx, fz))
         else (Fin 0, Fin 0))"

definition forces ::
  "SimulationParams \<Rightarrow> simState \<Rightarrow> bool \<Rightarrow> (nat \<Rightarrow> real) \<Rightarrow> nat \<Rightarrow> particle
     \<Rightarrow> fl \<times> fl \<times> fl" where
  "forces ps s cc rnd k p =
     (let (fx, fz) = toroidal ps s cc p;
          fy = snd (boiling ps s p);
          jitter = (temp p / Fin 500) * Fin 0.05
      in (fx + (Math_random rnd k - Fin 0.5) * jitter,
          fy + (Math_random rnd (k + 1) - Fin 0.5) * jitter,
          fz + (Math_random rnd (k + 2) - Fin 0.5) * jitter))"

text \<open>C. Integration: Euler step, drag, velocity clamp, position update.\<close>

definition clampVelocity :: "fl \<Rightarrow> fl" where
  "clampVelocity v = Math_max (- MAX_VELOCITY) (Math_min MAX_VELOCITY v)"

definition integration ::
  "SimulationParams \<Rightarrow> simState \<Rightarrow> fl \<Rightarrow> fl \<times> fl \<times> fl \<Rightarrow> particle \<Rightarrow> particle" where
  "integration ps s dt f p =
     (case f of (fx, fy, fz) \<Rightarrow>
        (let vx = clampVelocity ((vel_x p + fx * dt / inertiaFactor ps s) * dragFactor ps s dt);
             vy = clampVelocity ((vel_y p + fy * dt / inertiaFactor ps s) * dragFactor ps s dt);
             vz = clampVelocity ((vel_z p + fz * dt / inertiaFactor ps s) * dragFactor ps s dt)
         in p\<lparr>vel_x := vx, vel_y := vy, vel_z := vz,
               pos_x := pos_x p + vx * dt,
               pos_y := pos_y p + vy * dt,
               pos_z := pos_z p + vz * dt\<rparr>))"

text \<open>D. Boundary constraints: floor, ceiling, walls, in this order.\<close>

definition floor_bounce :: "SimulationParams \<Rightarrow> simState \<Rightarrow> particle \<Rightarrow> particle" where
  "floor_bounce ps s p =
     (if pos_y p < - halfH ps
      then p\<lparr>pos_y := - halfH ps + Fin 0.001,
             vel_y := vel_y p * Fin (- 0.4),
             temp := lerp (temp p) (s_tempSurface s) (Fin 0.2)\<rparr>
      else p)"

definition ceiling_bounce :: "SimulationParams \<Rightarrow> particle \<Rightarrow> particle" where
  "ceiling_bounce ps p =
     (if halfH ps < pos_y p
      then p\<lparr>pos_y := halfH ps - Fin 0.001, vel_y := vel_y p * Fin (- 0.4)\<rparr>
      else p)"

definition walls :: "SimulationParams \<Rightarrow> particle \<Rightarrow> particle" where
  "walls ps p =
     (let newR = radial p
      in if containerRadius ps < newR
         then (let angle = Math_atan2 (pos_z p) (pos_x p)
               in p\<lparr>pos_x := containerRadius ps * Math_cos angle,
                     pos_z := containerRadius ps * Math_sin angle,
                     vel_x := vel_x p * Fin (- 0.5),
                     vel_z := vel_z p * Fin (- 0.5)\<rparr>)
         else p)"

text \<open>
  The safety check: a particle whose position is not finite after the boundary constraints
  is reset, which draws three more random numbers.
\<close>

definition blownUp :: "particle \<Rightarrow> bool" where
  "blownUp p = (\<not> isFinite (pos_x p) \<or> \<not> isFinite (pos_y p) \<or> \<not> isFinite (pos_z p))"

definition safety ::
  "SimulationParams \<Rightarrow> simState \<Rightarrow> (nat \<Rightarrow> real) \<Rightarrow> nat \<Rightarrow> particle \<Rightarrow> particle \<times> nat" where
  "safety ps s rnd k p =
     (if blownUp p
      then (let safeR = Math_random rnd k * containerRadius ps * Fin 0.8;
                safeTheta = Math_random rnd (k + 1) * Fin 2 * Fin pi
            in (p\<lparr>pos_x := safeR * Math_cos safeTheta,
                   pos_y := (Math_random rnd (k + 2) - Fin 0.5) * halfH ps,
                   pos_z := safeR * Math_sin safeTheta,
                   vel_x := Fin 0, vel_y := Fin 0, vel_z := Fin 0,
                   temp := s_tempFluidInitial s\<rparr>, k + 3))
      else (p, k))"

text \<open>
  E. Visualization colour. The colour constants and the three.js operations
  \<^verbatim>\<open>Color.lerpColors(c1, c2, alpha)\<close> (\<^verbatim>\<open>c1 + (c2 - c1) * alpha\<close> on each channel) and
  \<^verbatim>\<open>Color.lerp(c, alpha)\<close> (\<^verbatim>\<open>this += (c - this) * alpha\<close> on each channel).
\<close>

type_synonym Color = "fl \<times> fl \<times> fl"

definition cBlue :: Color where "cBlue = (Fin 0.1, Fin 0.3, Fin 1.0)"
definition cCyan :: Color where "cCyan = (Fin 0.2, Fin 0.8, Fin 0.9)"
definition cGreen :: Color where "cGreen = (Fin 0.2, Fin 0.9, Fin 0.3)"
definition cYellow :: Color where "cYellow = (Fin 0.9, Fin 0.9, Fin 0.2)"
definition cRed :: Color where "cRed = (Fin 1.0, Fin 0.2, Fin 0.1)"
definition cGlow :: Color where "cGlow = (Fin 1.0, Fin 1.0, Fin 1.0)"
definition cGas :: Color where "cGas = (Fin 0.95, Fin 0.95, Fin 1.0)"

definition lerpColors :: "Color \<Rightarrow> Color \<Rightarrow> fl \<Rightarrow> Color" where
  "lerpColors c1 c2 alpha =
     (case c1 of (r1, g1, b1) \<Rightarrow> case c2 of (r2, g2, b2) \<Rightarrow>
        (r1 + (r2 - r1) * alpha, g1 + (g2 - g1) * alpha, b1 + (b2 - b1) * alpha))"

definition Color_lerp :: "Color \<Rightarrow> Color \<Rightarrow> fl \<Rightarrow> Color" where
  "Color_lerp this c alpha =
     (case this of (r1, g1, b1) \<Rightarrow> case c of (r2, g2, b2) \<Rightarrow>
        (r1 + (r2 - r1) * alpha, g1 + (g2 - g1) * alpha, b1 + (b2 - b1) * alpha))"

definition tNorm :: "simState \<Rightarrow> particle \<Rightarrow> fl" where
  "tNorm s p =
     Math_max (Fin 0) (Math_min (Fin 1)
       ((temp p - s_tempFluidInitial s)
          / Math_max (Fin 1) (s_tempSurface s - s_tempFluidInitial s)))"

definition isConducting :: "SimulationParams \<Rightarrow> simState \<Rightarrow> particle \<Rightarrow> bool" where
  "isConducting ps s p =
     (pos_y p + halfH ps < Fin 0.015 \<and> s_tempFluidInitial s + Fin 5 < temp p)"

definition heatMapColor :: "fl \<Rightarrow> Color" where
  "heatMapColor t =
     (if t < Fin 0.25 then lerpColors cBlue cCyan (t * Fin 4)
      else if t < Fin 0.5 then lerpColors cCyan cGreen ((t - Fin 0.25) * Fin 4)
      else if t < Fin 0.75 then lerpColors cGreen cYellow ((t - Fin 0.5) * Fin 4)
      else lerpColors cYellow cRed ((t - Fin 0.75) * Fin 4))"

definition wateryColor :: "SimulationParams \<Rightarrow> simState \<Rightarrow> particle \<Rightarrow> Color" where
  "wateryColor ps s p =
     (let speed = Math_sqrt (vel_x p * vel_x p + vel_y p * vel_y p + vel_z p * vel_z p);
          bright = Math_min (Fin 1) (speed * Fin 2);
          c1 = (Fin 0.1 + bright * Fin 0.2, Fin 0.4 + bright * Fin 0.2, Fin 0.8 + bright * Fin 0.2)
      in if isConducting ps s p then Color_lerp c1 cGlow (Fin 0.5) else c1)"

definition particleColor :: "SimulationParams \<Rightarrow> simState \<Rightarrow> bool \<Rightarrow> particle \<Rightarrow> Color" where
  "particleColor ps s showHeatMap p =
     (if pstate p = 1 then cGas
      else if showHeatMap
      then (if isConducting ps s p then cGlow else heatMapColor (tNorm s p))
      else wateryColor ps s p)"

definition visualization ::
  "SimulationParams \<Rightarrow> simState \<Rightarrow> bool \<Rightarrow> particle \<Rightarrow> particle" where
  "visualization ps s showHeatMap p =
     (case particleColor ps s showHeatMap p of
        (r, g, b) \<Rightarrow> p\<lparr>col_r := r, col_g := g, col_b := b\<rparr>)"

text \<open>The body of the main particle loop, and the loop.\<close>

definition update_particle ::
  "SimulationParams \<Rightarrow> simState \<Rightarrow> fl \<Rightarrow> bool \<Rightarrow> bool \<Rightarrow> (nat \<Rightarrow> real) \<Rightarrow> nat \<Rightarrow> particle
     \<Rightarrow> particle \<times> nat" where
  "update_particle ps s dt cc showHeatMap rnd k p =
     (let p1 = thermalPhysics ps s dt cc p;
          f = forces ps s cc rnd k p1;
          p2 = p1\<lparr>pstate := fst (boiling ps s p1)\<rparr>;
          p3 = integration ps s dt f p2;
          p4 = walls ps (ceiling_bounce ps (floor_bounce ps s p3));
          (p5, k') = safety ps s rnd (k + 3) p4
      in (visualization ps s showHeatMap p5, k'))"

fun particle_loop ::
  "SimulationParams \<Rightarrow> simState \<Rightarrow> fl \<Rightarrow> bool \<Rightarrow> bool \<Rightarrow> (nat \<Rightarrow> real) \<Rightarrow> nat \<Rightarrow> particle list
     \<Rightarrow> particle list \<times> nat" where
  "particle_loop ps s dt cc showHeatMap rnd k [] = ([], k)"
| "particle_loop ps s dt cc showHeatMap rnd k (p # rest) =
     (case update_particle ps s dt cc showHeatMap rnd k p of
        (p', k') \<Rightarrow>
          (case particle_loop ps s dt cc showHeatMap rnd k' rest of
             (rest', k'') \<Rightarrow> (p' # rest', k'')))"

subsection \<open>The frame callback\<close>

text \<open>
  The properties of the component and the running average temperature of a frame. The
  callback returns at once unless the component is mounted and playing; \<open>isPlaying\<close> stands
  for both conditions. The arrays hold as many particles as \<^verbatim>\<open>params.particleCount\<close> says, so
  the count of the loops is the length of the particle list.
\<close>

record FluidSystemProps =
  params :: SimulationParams
  computedValues :: ComputedValues
  isPlaying :: bool
  showHeatMap :: bool

definition sumT :: "particle list \<Rightarrow> fl" where
  "sumT parts = foldl (\<lambda>a p. a + temp p) (Fin 0) parts"

definition frameAvgT :: "particle list \<Rightarrow> fl" where
  "frameAvgT parts = sumT parts / Fin (real (length parts))"

definition averaging :: "particle list \<Rightarrow> simState \<Rightarrow> simState" where
  "averaging parts s = s\<lparr>s_avgSystemTemp := lerp (s_avgSystemTemp s) (frameAvgT parts) (Fin 0.1)\<rparr>"

definition tick :: "FluidSystemProps \<Rightarrow> fl \<Rightarrow> (nat \<Rightarrow> real) \<Rightarrow> world \<Rightarrow> world" where
  "tick props delta rnd w =
     (let dt = Math_min delta (Fin 0.05);
          s = averaging (particles w) (smooth (params props) (sim w))
      in case particle_loop (params props) s dt (canConvect (computedValues props))
                (showHeatMap props) rnd (drawn w) (particles w) of
           (parts, k) \<Rightarrow> \<lparr>sim = s, particles = parts, drawn = k\<rparr>)"

definition useFrame :: "FluidSystemProps \<Rightarrow> fl \<Rightarrow> (nat \<Rightarrow> real) \<Rightarrow> world \<Rightarrow> world" where
  "useFrame props delta rnd w = (if \<not> isPlaying props then w else tick props delta rnd w)"

text \<open>
  \<open>n\<close> frames in a row; frame \<open>i\<close> gets the properties \<open>props
  i\<close> and the time \<open>delta i\<close>.
\<close>

fun frames ::
  "(nat \<Rightarrow> FluidSystemProps) \<Rightarrow> (nat \<Rightarrow> fl) \<Rightarrow> (nat \<Rightarrow> real) \<Rightarrow> nat \<Rightarrow> world \<Rightarrow> world" where
  "frames props delta rnd 0 w = w"
| "frames props delta rnd (Suc n) w =
     useFrame (props n) (delta n) rnd (frames props delta rnd n w)"

section \<open>Scenarios and auxiliary notions\<close>

text \<open>
  The default configuration of \<^verbatim>\<open>constants.ts\<close>: water in a small beaker.
\<close>

definition DEFAULT_PARAMS :: SimulationParams where
  "DEFAULT_PARAMS =
     \<lparr>containerRadius = Fin 0.1,
      containerHeight = Fin 0.2,
      tempSurface = Fin 350,
      tempFluidInitial = Fin 293,
      boilingPoint = Fin 373.15,
      density = Fin 998,
      expansionCoefficient = Fin 0.000207,
      viscosityDynamic = Fin 0.001002,
      thermalDiffusivity = Fin 0.000000143,
      gravity = Fin 9.81,
      particleCount = 15000,
      densityEffect = Some (Fin 1)\<rparr>"

text \<open>
  The properties \<^verbatim>\<open>App.tsx\<close> passes down for a configuration while the
  simulation plays.
\<close>

definition playing :: "SimulationParams \<Rightarrow> bool \<Rightarrow> FluidSystemProps" where
  "playing ps shm =
     \<lparr>params = ps, computedValues = computed ps, isPlaying = True, showHeatMap = shm\<rparr>"

text \<open>The real value of a finite number.\<close>

definition toReal :: "fl \<Rightarrow> real" where
  "toReal a = (case a of Fin r \<Rightarrow> r | _ \<Rightarrow> 0)"

text \<open>The seven smoothed parameters, each with the configuration field it follows.\<close>

definition smoothed_fields :: "((simState \<Rightarrow> fl) \<times> (SimulationParams \<Rightarrow> fl)) list" where
  "smoothed_fields =
     [(s_tempSurface, tempSurface), (s_tempFluidInitial, tempFluidInitial),
      (s_gravity, gravity), (s_viscosity, viscosityDynamic),
      (s_expansion, expansionCoefficient), (s_diffusivity, thermalDiffusivity),
      (s_density, density)]"

text \<open>
  After the integration step, on each axis: the velocity is a number within the clamp, or both the
  velocity and the coordinate are \<open>NaN\<close>.
\<close>

definition axis_ok :: "fl \<Rightarrow> fl \<Rightarrow> bool" where
  "axis_ok v x = ((v = NaN \<and> x = NaN) \<or> (\<exists>r. v = Fin r \<and> \<bar>r\<bar> \<le> 10))"

text \<open>
  Every velocity component lies in \<open>[-MAX_VELOCITY, MAX_VELOCITY]\<close>. A comparison with
  \<open>NaN\<close> is false, so a bounded component is a number.
\<close>

definition velocityBounded :: "particle \<Rightarrow> bool" where
  "velocityBounded p =
     (- MAX_VELOCITY \<le> vel_x p \<and> vel_x p \<le> MAX_VELOCITY
      \<and> - MAX_VELOCITY \<le> vel_y p \<and> vel_y p \<le> MAX_VELOCITY
      \<and> - MAX_VELOCITY \<le> vel_z p \<and> vel_z p \<le> MAX_VELOCITY)"

text \<open>
  The particle lies within the cylinder: its horizontal radius is at most the container radius and
  its height within half the container height, up to the offset \<open>eps\<close>.
\<close>

definition insideContainer :: "fl \<Rightarrow> SimulationParams \<Rightarrow> particle \<Rightarrow> bool" where
  "insideContainer eps ps p =
     (radial p \<le> containerRadius ps
      \<and> - (halfH ps + eps) \<le> pos_y p \<and> pos_y p \<le> halfH ps + eps)"

text \<open>The state of the vertical axis after the floor and the ceiling.\<close>

definition vert_ok :: "real \<Rightarrow> fl \<Rightarrow> fl \<Rightarrow> bool" where
  "vert_ok H v y =
     (y = NaN \<or> (\<exists>r a. v = Fin r \<and> \<bar>r\<bar> \<le> 10 \<and> y = Fin a
                   \<and> \<bar>a\<bar> \<le> H / 2 + 0.001 \<and> (0.001 \<le> H \<longrightarrow> \<bar>a\<bar> \<le> H / 2)))"

text \<open>The state of the horizontal axes after the walls.\<close>

definition horiz_ok :: "real \<Rightarrow> particle \<Rightarrow> bool" where
  "horiz_ok R p =
     (pos_x p = NaN \<or> pos_z p = NaN
      \<or> (\<exists>a c r t. pos_x p = Fin a \<and> pos_z p = Fin c \<and> sqrt (a * a + c * c) \<le> R
            \<and> vel_x p = Fin r \<and> \<bar>r\<bar> \<le> 10 \<and> vel_z p = Fin t \<and> \<bar>t\<bar> \<le> 10))"

text \<open>The state of the vertical axis after the floor.\<close>

definition floor_ok :: "real \<Rightarrow> fl \<Rightarrow> fl \<Rightarrow> bool" where
  "floor_ok H v y =
     (y = NaN \<or> (\<exists>r. v = Fin r \<and> \<bar>r\<bar> \<le> 10 \<and> (y = PInf \<or> (\<exists>a. y = Fin a \<and> - (H / 2) \<le> a))))"

text \<open>The stability bounds of a particle at the end of a frame.\<close>

definition stable :: "SimulationParams \<Rightarrow> particle \<Rightarrow> bool" where
  "stable ps p =
     (velocityBounded p \<and> insideContainer (Fin 0.001) ps p
      \<and> (Fin 0.001 \<le> containerHeight ps \<longrightarrow> insideContainer (Fin 0) ps p))"

text \<open>
  Two sources of random numbers: always \<open>0\<close>, and always \<open>1/2\<close> (no
  jitter).
\<close>

definition zero_random :: "nat \<Rightarrow> real" where
  "zero_random k = 0"

definition half_random :: "nat \<Rightarrow> real" where
  "half_random k = 1 / 2"

text \<open>
  The default configuration with a single particle, and with a radius of one millimetre.
\<close>

definition one_particle :: SimulationParams where
  "one_particle = DEFAULT_PARAMS\<lparr>particleCount := 1\<rparr>"

definition tiny_container :: SimulationParams where
  "tiny_container = DEFAULT_PARAMS\<lparr>containerRadius := Fin 0.001, particleCount := 1\<rparr>"

text \<open>All the smoothed parameters and the running average are finite numbers.\<close>

definition finite_sim :: "simState \<Rightarrow> bool" where
  "finite_sim s =
     (isFinite (s_tempSurface s) \<and> isFinite (s_tempFluidInitial s) \<and> isFinite (s_gravity s)
      \<and> isFinite (s_viscosity s) \<and> isFinite (s_expansion s) \<and> isFinite (s_diffusivity s)
      \<and> isFinite (s_density s) \<and> isFinite (s_avgSystemTemp s))"

text \<open>
  The position, the velocity and the temperature of the particle are finite numbers.
\<close>

definition finite_particle :: "particle \<Rightarrow> bool" where
  "finite_particle p =
     (isFinite (pos_x p) \<and> isFinite (pos_y p) \<and> isFinite (pos_z p)
      \<and> isFinite (vel_x p) \<and> isFinite (vel_y p) \<and> isFinite (vel_z p) \<and> isFinite (temp p))"

text \<open>The configuration values the update reads are finite numbers.\<close>

definition finite_params :: "SimulationParams \<Rightarrow> bool" where
  "finite_params ps =
     (isFinite (containerRadius ps) \<and> isFinite (containerHeight ps)
      \<and> isFinite (tempSurface ps) \<and> isFinite (tempFluidInitial ps)
      \<and> isFinite (boilingPoint ps) \<and> isFinite (density ps)
      \<and> isFinite (expansionCoefficient ps) \<and> isFinite (viscosityDynamic ps)
      \<and> isFinite (thermalDiffusivity ps) \<and> isFinite (gravity ps)
      \<and> (case densityEffect ps of None \<Rightarrow> True | Some d \<Rightarrow> isFinite d))"

text \<open>
  The particle as it reaches the safety check: after the forces, the integration and the boundary
  constraints.
\<close>

definition beforeSafety ::
  "SimulationParams \<Rightarrow> simState \<Rightarrow> fl \<Rightarrow> bool \<Rightarrow> (nat \<Rightarrow> real) \<Rightarrow> nat \<Rightarrow> particle \<Rightarrow> particle" where
  "beforeSafety ps s dt cc rnd k p =
     (let p1 = thermalPhysics ps s dt cc p
      in walls ps (ceiling_bounce ps (floor_bounce ps s
           (integration ps s dt (forces ps s cc rnd k p1) (p1\<lparr>pstate := fst (boiling ps s p1)\<rparr>)))))"

text \<open>
  A particle at the centre of the container, moving at \<open>1 m/s\<close> along
  \<open>x\<close>, and the world of this single particle under the default configuration.
\<close>

definition moving_particle :: particle where
  "moving_particle =
     \<lparr>pos_x = Fin 0, pos_y = Fin 0, pos_z = Fin 0,
      vel_x = Fin 1, vel_y = Fin 0, vel_z = Fin 0,
      temp = Fin 293, col_r = Fin 0, col_g = Fin 0, col_b = Fin 0,
      pstate = 0, meta = Fin 1\<rparr>"

definition moving_world :: world where
  "moving_world = \<lparr>sim = init_simState one_particle, particles = [moving_particle], drawn = 4\<rparr>"

text \<open>
  A particle hotter than the boiling point of the default configuration, at the centre of the
  container.
\<close>

definition hot_particle :: particle where
  "hot_particle = moving_particle\<lparr>temp := Fin 400\<rparr>"

text \<open>
  A configuration whose Rayleigh number is \<open>1500\<close>, between the two thresholds, and the same
  configuration with a surface hotter than the boiling point.
\<close>

definition marginal_params :: SimulationParams where
  "marginal_params =
     \<lparr>containerRadius = Fin 1,
      containerHeight = Fin 1,
      tempSurface = Fin 1,
      tempFluidInitial = Fin 0,
      boilingPoint = Fin 373.15,
      density = Fin 1,
      expansionCoefficient = Fin 1,
      viscosityDynamic = Fin (1 / 1500),
      thermalDiffusivity = Fin 1,
      gravity = Fin 1,
      particleCount = 1,
      densityEffect = None\<rparr>"

definition marginal_boiling_params :: SimulationParams where
  "marginal_boiling_params = marginal_params\<lparr>tempSurface := Fin 400, tempFluidInitial := Fin 399\<rparr>"

text \<open>
  A cold particle near the floor, half way to the wall, in a fluid of average temperature
  \<open>1\<close>.
\<close>

definition cold_particle :: particle where
  "cold_particle =
     \<lparr>pos_x = Fin 0.5, pos_y = Fin (- 0.4), pos_z = Fin 0,
      vel_x = Fin 0, vel_y = Fin 0, vel_z = Fin 0,
      temp = Fin 0, col_r = Fin 0, col_g = Fin 0, col_b = Fin 0,
      pstate = 0, meta = Fin 1\<rparr>"

definition marginal_sim :: simState where
  "marginal_sim = (init_simState marginal_params)\<lparr>s_avgSystemTemp := Fin 1\<rparr>"


text \<open>The elapsed time of the example scenario, \<open>0.016\<close> seconds.\<close>

definition frame_time :: fl where
  "frame_time = Fin 0.016"


text \<open>Every channel of the colour lies in \<open>[0, 1]\<close>.\<close>

definition unitColor :: "Color \<Rightarrow> bool" where
  "unitColor c =
     (case c of (r, g, b) \<Rightarrow>
        Fin 0 \<le> r \<and> r \<le> Fin 1 \<and> Fin 0 \<le> g \<and> g \<le> Fin 1 \<and> Fin 0 \<le> b \<and> b \<le> Fin 1)"

text \<open>
  The smoothed state of the default configuration after the initial fluid temperature was set to
  \<open>NaN\<close>.
\<close>

definition nan_ambient :: simState where
  "nan_ambient = (init_simState one_particle)\<lparr>s_tempFluidInitial := NaN\<rparr>"

text \<open>The example scenario: the default configuration with three particles.\<close>

definition three_particles :: SimulationParams where
  "three_particles = DEFAULT_PARAMS\<lparr>particleCount := 3\<rparr>"

text \<open>
  A particle of the example scenario: at rest at \<open>y = -0.099\<close>, just above the floor,
  with temperature \<open>293\<close> and a finite horizontal position.
\<close>

definition nearFloor :: "particle \<Rightarrow> bool" where
  "nearFloor p =
     (pos_y p = Fin (- 0.099) \<and> isFinite (pos_x p) \<and> isFinite (pos_z p)
      \<and> vel_x p = Fin 0 \<and> vel_y p = Fin 0 \<and> vel_z p = Fin 0 \<and> temp p = Fin 293)"

text \<open>
  The world of the example scenario with the three particles on the axis, and the properties of
  the component without convection.
\<close>

definition floor_particle :: particle where
  "floor_particle = moving_particle\<lparr>pos_y := Fin (- 0.099), vel_x := Fin 0\<rparr>"

definition scenario_world :: world where
  "scenario_world =
     \<lparr>sim = init_simState three_particles,
      particles = [floor_particle, floor_particle, floor_particle],
      drawn = 12\<rparr>"

definition scenario_props :: FluidSystemProps where
  "scenario_props =
     \<lparr>params = three_particles,
      computedValues = (computed three_particles)\<lparr>rayleigh := Fin 0\<rparr>,
      isPlaying = True, showHeatMap = True\<rparr>"

text \<open>
  The phase and the vertical force of a particle of temperature \<open>T\<close> as the specification words
  them: gas (\<open>1\<close>) and \<open>gravity * 2\<close> above the boiling point, liquid (\<open>0\<close>) and the buoyancy
  \<open>gravity * expansion * (T - avgSystemTemp) * 250\<close> otherwise. The update is compared with
  it below.
\<close>

definition phaseAndLift :: "SimulationParams \<Rightarrow> simState \<Rightarrow> fl \<Rightarrow> nat \<times> fl" where
  "phaseAndLift ps s T =
     (if boilingPoint ps < T then (1, s_gravity s * Fin 2)
      else (0, s_gravity s * s_expansion s * (T - s_avgSystemTemp s) * Fin 250))"

text \<open>An elapsed time of ten microseconds.\<close>

definition short_time :: fl where
  "short_time = Fin 0.00001"

text \<open>
  The properties for a configuration whose derived Rayleigh number is replaced by \<open>ra\<close>, with
  the heat map shown.
\<close>

definition playing_at :: "SimulationParams \<Rightarrow> fl \<Rightarrow> FluidSystemProps" where
  "playing_at ps ra = (playing ps True)\<lparr>computedValues := (computed ps)\<lparr>rayleigh := ra\<rparr>\<rparr>"

text \<open>
  The worlds of a single cold and of a single hot particle. The running average temperature
  is chosen so that the averaging step of the next frame brings it to \<open>1\<close> and to \<open>293\<close>, the
  values of \<open>marginal_sim\<close> and of the initial state of the default configuration.
\<close>

definition cold_world :: world where
  "cold_world =
     \<lparr>sim = (init_simState marginal_params)\<lparr>s_avgSystemTemp := Fin (10 / 9)\<rparr>,
      particles = [cold_particle], drawn = 0\<rparr>"

definition hot_world :: world where
  "hot_world =
     \<lparr>sim = (init_simState one_particle)\<lparr>s_avgSystemTemp := Fin (2530 / 9)\<rparr>,
      particles = [hot_particle], drawn = 0\<rparr>"

text \<open>
  The default configuration after the number box of the initial fluid temperature was cleared
  (\<^verbatim>\<open>parseFloat('')\<close> is \<open>NaN\<close>), and a smoothed state whose two temperatures are
  \<open>Infinity\<close>.
\<close>

definition cleared_params :: SimulationParams where
  "cleared_params = one_particle\<lparr>tempFluidInitial := NaN\<rparr>"

definition unbounded_ambient :: simState where
  "unbounded_ambient =
     (init_simState one_particle)\<lparr>s_tempSurface := PInf, s_tempFluidInitial := PInf\<rparr>"

section \<open>Basic facts\<close>

lemma toReal_Fin [simp]: "toReal (Fin a) = a"
  by (simp add: toReal_def)

lemma lerp_Fin [simp]: "lerp (Fin a) (Fin b) (Fin t) = Fin ((1 - t) * a + t * b)"
  by (simp add: lerp_def minus_fl_def)

lemma sim_tick:
  "sim (tick props d rnd w) = averaging (particles w) (smooth (params props) (sim w))"
  by (simp add: tick_def Let_def split: prod.split)

section \<open>Parameter smoothing\<close>

lemma smoothed_field_step:
  assumes "(g, tg) \<in> set smoothed_fields"
  shows "g (averaging parts (smooth ps s)) = lerp (g s) (tg ps) lerpRate"
  using assms by (auto simp: smoothed_fields_def averaging_def smooth_def)

lemma smoothed_field_frames:
  assumes "\<forall>i. isPlaying (props i) \<and> params (props i) = ps"
    and "(g, tg) \<in> set smoothed_fields"
    and "tg ps = Fin t" and "g (sim w) = Fin s0"
  shows "g (sim (frames props delta rnd n w)) = Fin (t + 0.95 ^ n * (s0 - t))"
proof (induction n)
  case 0
  then show ?case using assms by simp
next
  case (Suc n)
  have "(1 - 0.05) * (t + q * (s0 - t)) + 0.05 * t = t + (0.95 * q) * (s0 - t)" for q :: real
    by (simp add: field_simps)
  then have "(1 - 0.05) * (t + 0.95 ^ n * (s0 - t)) + 0.05 * t = t + 0.95 ^ Suc n * (s0 - t)"
    by (simp only: power_Suc)
  then show ?case using assms Suc
    by (simp add: useFrame_def sim_tick smoothed_field_step [OF assms(2)] lerpRate_def
        del: power_Suc)
qed

text \<open>
  C5. Each of the seven smoothed parameters moves, in every frame that runs, from its value
  \<open>a\<close> to \<open>a + 0.05 * (target - a)\<close>, whatever the elapsed times \<open>delta\<close> are. With the
  configuration held constant, the value after a frame lies between the value before it and
  the target (it approaches the target monotonically and never passes it), and the sequence
  of values converges to the target.
\<close>

theorem smoothing_monotone:
  assumes "\<forall>i. isPlaying (props i) \<and> params (props i) = ps"
    and "(g, tg) \<in> set smoothed_fields"
    and "tg ps = Fin t" and "g (sim w) = Fin s0"
  shows "(\<forall>n. \<exists>a b. g (sim (frames props delta rnd n w)) = Fin a
             \<and> g (sim (frames props delta rnd (Suc n) w)) = Fin b
             \<and> b = a + 0.05 * (t - a)
             \<and> (a \<le> t \<longrightarrow> a \<le> b \<and> b \<le> t)
             \<and> (t \<le> a \<longrightarrow> t \<le> b \<and> b \<le> a))
       \<and> (\<lambda>n. toReal (g (sim (frames props delta rnd n w)))) \<longlonglongrightarrow> t"
proof (intro conjI allI)
  fix n
  define a where "a = t + 0.95 ^ n * (s0 - t)"
  define b where "b = a + 0.05 * (t - a)"
  have "t + 0.95 ^ Suc n * (s0 - t) = b"
    by (simp add: a_def b_def field_simps)
  then have ab: "g (sim (frames props delta rnd n w)) = Fin a"
    "g (sim (frames props delta rnd (Suc n) w)) = Fin b"
    using smoothed_field_frames [OF assms, of delta rnd n]
      smoothed_field_frames [OF assms, of delta rnd "Suc n"]
    by (simp_all only: a_def)
  have b20: "b = a + (t - a) / 20"
    by (simp add: b_def)
  have "a \<le> t \<longrightarrow> a \<le> b \<and> b \<le> t"
    unfolding b20 by argo
  moreover have "t \<le> a \<longrightarrow> t \<le> b \<and> b \<le> a"
    unfolding b20 by argo
  ultimately show "\<exists>a b. g (sim (frames props delta rnd n w)) = Fin a
             \<and> g (sim (frames props delta rnd (Suc n) w)) = Fin b
             \<and> b = a + 0.05 * (t - a)
             \<and> (a \<le> t \<longrightarrow> a \<le> b \<and> b \<le> t)
             \<and> (t \<le> a \<longrightarrow> t \<le> b \<and> b \<le> a)"
    using ab b_def by blast
next
  have p: "(\<lambda>n. (0.95::real) ^ n) \<longlonglongrightarrow> 0"
    by (rule LIMSEQ_realpow_zero) simp_all
  have "(\<lambda>n. 0.95 ^ n * (s0 - t)) \<longlonglongrightarrow> 0 * (s0 - t)"
    by (rule tendsto_mult [OF p tendsto_const])
  then have "(\<lambda>n. t + 0.95 ^ n * (s0 - t)) \<longlonglongrightarrow> t + 0 * (s0 - t)"
    by (rule tendsto_add [OF tendsto_const])
  then show "(\<lambda>n. toReal (g (sim (frames props delta rnd n w)))) \<longlonglongrightarrow> t"
    by (simp add: smoothed_field_frames [OF assms])
qed

theorem smoothing_monotone_witness:
  "(\<forall>i::nat. isPlaying (playing DEFAULT_PARAMS True)
       \<and> params (playing DEFAULT_PARAMS True) = DEFAULT_PARAMS)
   \<and> (s_gravity, gravity) \<in> set smoothed_fields
   \<and> gravity DEFAULT_PARAMS = Fin 9.81
   \<and> s_gravity (sim \<lparr>sim = (init_simState DEFAULT_PARAMS)\<lparr>s_gravity := Fin 0\<rparr>,
                     particles = [], drawn = 0\<rparr>) = Fin 0
   \<and> (\<lambda>n. toReal (s_gravity (sim (frames (\<lambda>_. playing DEFAULT_PARAMS True)
          (\<lambda>_. Fin 0.016) (\<lambda>_. 0) n
          \<lparr>sim = (init_simState DEFAULT_PARAMS)\<lparr>s_gravity := Fin 0\<rparr>,
           particles = [], drawn = 0\<rparr>))))
       \<longlonglongrightarrow> 9.81"
proof -
  have h1: "\<forall>i::nat. isPlaying ((\<lambda>_. playing DEFAULT_PARAMS True) i)
               \<and> params ((\<lambda>_. playing DEFAULT_PARAMS True) i) = DEFAULT_PARAMS"
    by (simp add: playing_def)
  have h2: "(s_gravity, gravity) \<in> set smoothed_fields"
    by (simp add: smoothed_fields_def)
  have h3: "gravity DEFAULT_PARAMS = Fin 9.81"
    by (simp add: DEFAULT_PARAMS_def)
  have h4: "s_gravity (sim \<lparr>sim = (init_simState DEFAULT_PARAMS)\<lparr>s_gravity := Fin 0\<rparr>,
                           particles = [], drawn = 0\<rparr>) = Fin 0"
    by simp
  from smoothing_monotone [OF h1 h2 h3 h4] h1 h2 h3 h4 show ?thesis
    by simp
qed

section \<open>Special values\<close>

lemma plus_NaN [simp]: "a + NaN = NaN" "NaN + a = NaN"
  by (cases a; simp)+

lemma times_NaN [simp]: "a * NaN = NaN" "NaN * a = NaN"
  by (cases a; simp)+

lemma minus_NaN [simp]: "a - NaN = NaN" "NaN - a = NaN"
  by (simp_all add: minus_fl_def)

lemma divide_NaN [simp]: "a / NaN = NaN" "NaN / a = NaN"
  by (cases a; simp)+

lemma less_NaN [simp]: "\<not> a < NaN" "\<not> NaN < a"
  by (cases a; simp)+

lemma less_eq_NaN [simp]: "\<not> a \<le> NaN" "\<not> NaN \<le> a"
  by (cases a; simp)+

lemma Fin_minus [simp]: "Fin a - Fin b = Fin (a - b)"
  by (simp add: minus_fl_def)

lemma Math_max_NaN [simp]: "Math_max a NaN = NaN" "Math_max NaN a = NaN"
  by (simp_all add: Math_max_def)

lemma Math_min_NaN [simp]: "Math_min a NaN = NaN" "Math_min NaN a = NaN"
  by (simp_all add: Math_min_def)

lemma Math_max_Fin [simp]: "Math_max (Fin a) (Fin b) = Fin (max a b)"
  by (simp add: Math_max_def max_def)

lemma Math_min_Fin [simp]: "Math_min (Fin a) (Fin b) = Fin (min a b)"
  by (simp add: Math_min_def min_def)

section \<open>Stability of the update\<close>

lemma clampVelocity_cases:
  "(v = NaN \<and> clampVelocity v = NaN) \<or> (\<exists>r. clampVelocity v = Fin r \<and> \<bar>r\<bar> \<le> 10)"
  by (cases v) (auto simp: clampVelocity_def MAX_VELOCITY_def Math_max_def Math_min_def)

lemma axis_ok_integrate: "axis_ok (clampVelocity v) (x + clampVelocity v * dt)"
  using clampVelocity_cases [of v] by (auto simp: axis_ok_def)

lemma integration_ok:
  assumes "q = integration ps s dt f p"
  shows "axis_ok (vel_x q) (pos_x q) \<and> axis_ok (vel_y q) (pos_y q) \<and> axis_ok (vel_z q) (pos_z q)"
  using assms by (cases f) (simp add: integration_def Let_def axis_ok_integrate)

lemma halfH_Fin [simp]: "containerHeight ps = Fin H \<Longrightarrow> halfH ps = Fin (H / 2)"
  by (simp add: halfH_def)

lemma floor_bounce_ok:
  assumes "axis_ok (vel_y p) (pos_y p)" and "containerHeight ps = Fin H" and "0 < H"
  shows "floor_ok H (vel_y (floor_bounce ps s p)) (pos_y (floor_bounce ps s p))"
proof (cases "pos_y p")
  case (Fin a)
  with assms obtain r where "vel_y p = Fin r" "\<bar>r\<bar> \<le> 10"
    by (auto simp: axis_ok_def)
  with Fin assms(2,3) show ?thesis
    by (auto simp: floor_bounce_def floor_ok_def abs_if split: if_splits)
next
  case PInf
  with assms show ?thesis
    by (auto simp: floor_bounce_def floor_ok_def axis_ok_def)
next
  case NInf
  with assms obtain r where "vel_y p = Fin r" "\<bar>r\<bar> \<le> 10"
    by (auto simp: axis_ok_def)
  with NInf assms(2,3) show ?thesis
    by (auto simp: floor_bounce_def floor_ok_def abs_if split: if_splits)
next
  case NaN
  then show ?thesis
    by (simp add: floor_bounce_def floor_ok_def)
qed

lemma ceiling_bounce_ok:
  assumes "floor_ok H (vel_y p) (pos_y p)" and "containerHeight ps = Fin H" and "0 < H"
  shows "vert_ok H (vel_y (ceiling_bounce ps p)) (pos_y (ceiling_bounce ps p))"
proof (cases "pos_y p")
  case (Fin a)
  with assms obtain r where "vel_y p = Fin r" "\<bar>r\<bar> \<le> 10" "- (H / 2) \<le> a"
    by (auto simp: floor_ok_def)
  with Fin assms(2,3) show ?thesis
    by (auto simp: ceiling_bounce_def vert_ok_def abs_if split: if_splits)
next
  case PInf
  with assms obtain r where "vel_y p = Fin r" "\<bar>r\<bar> \<le> 10"
    by (auto simp: floor_ok_def)
  with PInf assms(2,3) show ?thesis
    by (auto simp: ceiling_bounce_def vert_ok_def abs_if split: if_splits)
next
  case NInf
  with assms show ?thesis
    by (auto simp: floor_ok_def)
next
  case NaN
  then show ?thesis
    by (simp add: ceiling_bounce_def vert_ok_def)
qed

lemma floor_ceiling_horizontal:
  assumes "q = ceiling_bounce ps (floor_bounce ps s p)"
  shows "pos_x q = pos_x p \<and> pos_z q = pos_z p \<and> vel_x q = vel_x p \<and> vel_z q = vel_z p"
  using assms by (simp add: floor_bounce_def ceiling_bounce_def)

lemma sqrt_circle: "sqrt ((R * cos t) * (R * cos t) + (R * sin t) * (R * sin t)) = \<bar>R\<bar>"
proof -
  have "(R * c) * (R * c) + (R * d) * (R * d) = R * R * (c * c + d * d)" for c d :: real
    by (simp add: algebra_simps)
  then have "(R * cos t) * (R * cos t) + (R * sin t) * (R * sin t)
          = R * R * (cos t * cos t + sin t * sin t)" .
  also have "\<dots> = R * R"
    by (simp only: sin_cos_squared_add3 mult_1_right)
  finally show ?thesis by simp
qed

lemma isFinite_iff: "isFinite a \<longleftrightarrow> (\<exists>r. a = Fin r)"
  by (cases a) simp_all

lemma Math_atan2_finite: "b \<noteq> NaN \<Longrightarrow> a \<noteq> NaN \<Longrightarrow> \<exists>t. Math_atan2 b a = Fin t"
  unfolding isFinite_iff [symmetric] by (cases b; cases a) simp_all

lemma radial_NaN: "radial p = NaN \<longleftrightarrow> pos_x p = NaN \<or> pos_z p = NaN"
  by (cases "pos_x p"; cases "pos_z p")
    (auto simp: radial_def inf_of_sign_def not_sum_squares_lt_zero)

lemma radial_Fin:
  "radial p = Fin r \<longleftrightarrow> (\<exists>a c. pos_x p = Fin a \<and> pos_z p = Fin c \<and> r = sqrt (a * a + c * c))"
  by (cases "pos_x p"; cases "pos_z p")
    (auto simp: radial_def inf_of_sign_def not_sum_squares_lt_zero)

lemma walls_ok:
  assumes "axis_ok (vel_x p) (pos_x p)" and "axis_ok (vel_z p) (pos_z p)"
    and "containerRadius ps = Fin R" and "0 < R"
  shows "horiz_ok R (walls ps p)"
proof (cases "containerRadius ps < radial p")
  case True
  then have nn: "pos_x p \<noteq> NaN" "pos_z p \<noteq> NaN"
    using radial_NaN [of p] by auto
  then obtain t where t: "Math_atan2 (pos_z p) (pos_x p) = Fin t"
    using Math_atan2_finite by blast
  from nn assms obtain r u where "vel_x p = Fin r" "\<bar>r\<bar> \<le> 10" "vel_z p = Fin u" "\<bar>u\<bar> \<le> 10"
    by (auto simp: axis_ok_def)
  with True t assms(3,4) show ?thesis
    by (simp add: walls_def Let_def horiz_ok_def sqrt_circle)
next
  case False
  show ?thesis
  proof (cases "radial p")
    case (Fin r)
    then obtain a c where ac: "pos_x p = Fin a" "pos_z p = Fin c" "r = sqrt (a * a + c * c)"
      using radial_Fin by blast
    with assms obtain v u where "vel_x p = Fin v" "\<bar>v\<bar> \<le> 10" "vel_z p = Fin u" "\<bar>u\<bar> \<le> 10"
      by (auto simp: axis_ok_def)
    with False Fin ac assms(3) show ?thesis
      by (simp add: walls_def Let_def horiz_ok_def)
  next
    case PInf
    with False assms(3) show ?thesis by simp
  next
    case NInf
    then show ?thesis
      by (cases "pos_x p"; cases "pos_z p") (auto simp: radial_def inf_of_sign_def split: if_splits)
  next
    case NaN
    with False show ?thesis
      using radial_NaN [of p] by (auto simp: walls_def Let_def horiz_ok_def)
  qed
qed

lemma walls_vertical: "pos_y (walls ps p) = pos_y p \<and> vel_y (walls ps p) = vel_y p"
  by (simp add: walls_def Let_def)

lemma stable_reals:
  assumes "containerRadius ps = Fin R" and "containerHeight ps = Fin H"
    and "pos_x p = Fin a" and "pos_y p = Fin b" and "pos_z p = Fin c"
    and "vel_x p = Fin u" and "vel_y p = Fin v" and "vel_z p = Fin w"
    and "sqrt (a * a + c * c) \<le> R"
    and "\<bar>b\<bar> \<le> H / 2 + 0.001" and "0.001 \<le> H \<longrightarrow> \<bar>b\<bar> \<le> H / 2"
    and "\<bar>u\<bar> \<le> 10" and "\<bar>v\<bar> \<le> 10" and "\<bar>w\<bar> \<le> 10"
  shows "stable ps p"
  using assms
  by (auto simp: stable_def velocityBounded_def insideContainer_def MAX_VELOCITY_def radial_def
      not_sum_squares_lt_zero abs_if split: if_splits)

lemma reset_radius:
  assumes "0 \<le> u" and "u < 1" and "0 < R"
  shows "sqrt ((u * R * 0.8 * cos t) * (u * R * 0.8 * cos t)
               + (u * R * 0.8 * sin t) * (u * R * 0.8 * sin t)) \<le> R"
proof -
  have "sqrt ((u * R * 0.8 * cos t) * (u * R * 0.8 * cos t)
               + (u * R * 0.8 * sin t) * (u * R * 0.8 * sin t)) = \<bar>u * R * 0.8\<bar>"
    by (rule sqrt_circle)
  also have "\<dots> = u * R * 0.8"
    using assms by simp
  also have "\<dots> \<le> 1 * R * 0.8"
    using assms by (intro mult_right_mono) simp_all
  also have "\<dots> \<le> R"
    using assms by simp
  finally show ?thesis .
qed

lemma reset_height:
  assumes "0 \<le> u" and "u < 1" and "0 < H"
  shows "\<bar>(u - 0.5) * (H / 2)\<bar> \<le> H / (2::real)"
proof -
  have "\<bar>u - 0.5\<bar> \<le> 1" using assms by (simp add: abs_if)
  then have "\<bar>u - 0.5\<bar> * (H / 2) \<le> 1 * (H / 2)"
    using assms by (intro mult_right_mono) simp_all
  then show ?thesis using assms by (simp add: abs_mult)
qed

lemma safety_ok:
  assumes v: "vert_ok H (vel_y p) (pos_y p)" and h: "horiz_ok R p"
    and R: "containerRadius ps = Fin R" "0 < R"
    and H: "containerHeight ps = Fin H" "0 < H"
    and rnd: "random_ok rnd"
  shows "stable ps (fst (safety ps s rnd k p))"
proof (cases "blownUp p")
  case True
  have u: "0 \<le> rnd j \<and> rnd j < 1" for j
    using rnd by (simp add: random_ok_def)
  show ?thesis
  proof (rule stable_reals [OF R(1) H(1)])
    show "pos_x (fst (safety ps s rnd k p)) = Fin (rnd k * R * 0.8 * cos (rnd (k + 1) * 2 * pi))"
      using True R by (simp add: safety_def Let_def Math_random_def)
    show "pos_z (fst (safety ps s rnd k p)) = Fin (rnd k * R * 0.8 * sin (rnd (k + 1) * 2 * pi))"
      using True R by (simp add: safety_def Let_def Math_random_def)
    show "pos_y (fst (safety ps s rnd k p)) = Fin ((rnd (k + 2) - 0.5) * (H / 2))"
      using True H by (simp add: safety_def Let_def Math_random_def)
    show "vel_x (fst (safety ps s rnd k p)) = Fin 0" "vel_y (fst (safety ps s rnd k p)) = Fin 0"
      "vel_z (fst (safety ps s rnd k p)) = Fin 0"
      using True by (simp_all add: safety_def Let_def)
    show "sqrt (rnd k * R * 0.8 * cos (rnd (k + 1) * 2 * pi)
                  * (rnd k * R * 0.8 * cos (rnd (k + 1) * 2 * pi))
                + rnd k * R * 0.8 * sin (rnd (k + 1) * 2 * pi)
                  * (rnd k * R * 0.8 * sin (rnd (k + 1) * 2 * pi))) \<le> R"
      using reset_radius [of "rnd k" R] u [of k] R(2) by simp
    have "\<bar>(rnd (k + 2) - 0.5) * (H / 2)\<bar> \<le> H / 2"
      using reset_height [of "rnd (k + 2)" H] u [of "k + 2"] H(2) by simp
    then show "\<bar>(rnd (k + 2) - 0.5) * (H / 2)\<bar> \<le> H / 2 + 0.001"
      "0.001 \<le> H \<longrightarrow> \<bar>(rnd (k + 2) - 0.5) * (H / 2)\<bar> \<le> H / 2"
      by simp_all
  qed simp_all
next
  case False
  then obtain a b c where pos: "pos_x p = Fin a" "pos_y p = Fin b" "pos_z p = Fin c"
    by (auto simp: blownUp_def isFinite_iff)
  from v pos obtain r where vy: "vel_y p = Fin r" "\<bar>r\<bar> \<le> 10"
    "\<bar>b\<bar> \<le> H / 2 + 0.001" "0.001 \<le> H \<longrightarrow> \<bar>b\<bar> \<le> H / 2"
    by (auto simp: vert_ok_def)
  from h pos obtain u w where vxz: "vel_x p = Fin u" "\<bar>u\<bar> \<le> 10" "vel_z p = Fin w" "\<bar>w\<bar> \<le> 10"
    "sqrt (a * a + c * c) \<le> R"
    by (auto simp: horiz_ok_def)
  have "fst (safety ps s rnd k p) = p"
    using False by (simp add: safety_def)
  with pos vy vxz show ?thesis
    by (simp add: stable_reals [OF R(1) H(1)])
qed

lemma visualization_kinematics [simp]:
  "pos_x (visualization ps s shm p) = pos_x p"
  "pos_y (visualization ps s shm p) = pos_y p"
  "pos_z (visualization ps s shm p) = pos_z p"
  "vel_x (visualization ps s shm p) = vel_x p"
  "vel_y (visualization ps s shm p) = vel_y p"
  "vel_z (visualization ps s shm p) = vel_z p"
  "temp (visualization ps s shm p) = temp p"
  "pstate (visualization ps s shm p) = pstate p"
  by (simp_all add: visualization_def split: prod.split)

lemma stable_visualization [simp]: "stable ps (visualization ps' s shm p) = stable ps p"
  by (simp add: stable_def velocityBounded_def insideContainer_def radial_def)

lemma update_particle_stable:
  assumes R: "containerRadius ps = Fin R" "0 < R"
    and H: "containerHeight ps = Fin H" "0 < H"
    and rnd: "random_ok rnd"
  shows "stable ps (fst (update_particle ps s dt cc shm rnd k p))"
proof -
  define p1 where "p1 = thermalPhysics ps s dt cc p"
  define p3 where "p3 = integration ps s dt (forces ps s cc rnd k p1)
                          (p1\<lparr>pstate := fst (boiling ps s p1)\<rparr>)"
  define p3a where "p3a = floor_bounce ps s p3"
  define p3b where "p3b = ceiling_bounce ps p3a"
  define p4 where "p4 = walls ps p3b"
  have ax: "axis_ok (vel_x p3) (pos_x p3)" "axis_ok (vel_y p3) (pos_y p3)"
    "axis_ok (vel_z p3) (pos_z p3)"
    using integration_ok [OF p3_def] by simp_all
  have "floor_ok H (vel_y p3a) (pos_y p3a)"
    unfolding p3a_def using ax(2) H by (rule floor_bounce_ok)
  then have "vert_ok H (vel_y p3b) (pos_y p3b)"
    unfolding p3b_def using H by (rule ceiling_bounce_ok)
  then have v: "vert_ok H (vel_y p4) (pos_y p4)"
    by (simp add: p4_def walls_vertical)
  have "axis_ok (vel_x p3b) (pos_x p3b)" "axis_ok (vel_z p3b) (pos_z p3b)"
    using ax floor_ceiling_horizontal [of p3b ps s p3] by (simp_all add: p3b_def p3a_def)
  then have h: "horiz_ok R p4"
    unfolding p4_def using R by (rule walls_ok)
  have "stable ps (fst (safety ps s rnd (k + 3) p4))"
    using v h R H rnd by (rule safety_ok)
  then show ?thesis
    by (simp add: update_particle_def Let_def p1_def p3_def p3a_def p3b_def p4_def
        case_prod_beta)
qed

lemma particle_loop_stable:
  assumes R: "containerRadius ps = Fin R" "0 < R"
    and H: "containerHeight ps = Fin H" "0 < H"
    and rnd: "random_ok rnd"
  shows "q \<in> set (fst (particle_loop ps s dt cc shm rnd k parts)) \<Longrightarrow> stable ps q"
proof (induction parts arbitrary: k)
  case Nil
  then show ?case by simp
next
  case (Cons p rest)
  then show ?case
    using update_particle_stable [OF assms, of s dt cc shm k p]
    by (auto simp: case_prod_beta)
qed

lemma particles_tick:
  "particles (tick props delta rnd w)
     = fst (particle_loop (params props)
              (averaging (particles w) (smooth (params props) (sim w)))
              (Math_min delta (Fin 0.05)) (canConvect (computedValues props))
              (showHeatMap props) rnd (drawn w) (particles w))"
  by (simp add: tick_def Let_def case_prod_beta)

lemma length_particle_loop:
  "length (fst (particle_loop ps s dt cc shm rnd k parts)) = length parts"
  by (induction parts arbitrary: k) (simp_all add: case_prod_beta)

lemma length_particles_tick: "length (particles (tick props delta rnd w)) = length (particles w)"
  by (simp add: particles_tick length_particle_loop)

lemma random_ok_half [simp]: "random_ok half_random"
  by (simp add: random_ok_def half_random_def)

lemma finite_default [simp]: "finite_params one_particle" "finite_sim (init_simState one_particle)"
  by (simp_all add: finite_params_def finite_sim_def init_simState_def one_particle_def
      DEFAULT_PARAMS_def)

lemma moving_facts:
  "params (playing one_particle True) = one_particle"
  "containerRadius one_particle = Fin 0.1" "containerHeight one_particle = Fin 0.2"
  "sim moving_world = init_simState one_particle"
  "particles moving_world = [moving_particle]"
  "finite_particle moving_particle"
  "insideContainer (Fin 0) one_particle moving_particle"
  by (simp_all add: playing_def one_particle_def DEFAULT_PARAMS_def moving_world_def
      moving_particle_def finite_particle_def insideContainer_def radial_def halfH_def)

text \<open>
  C1. After a frame has run, for a container of positive finite radius and height and
  whatever the previous particle state, the smoothed state, the elapsed time and the other
  configuration values are (not-a-number included): every velocity component of every
  particle lies in \<open>[-10, 10]\<close>, the horizontal radius is at most the container radius, and the
  height is within half the container height up to the snap offset \<open>0.001\<close>, and exactly
  within it when the container is at least \<open>0.001\<close> high.
\<close>

theorem tick_stable:
  assumes "containerRadius (params props) = Fin R" and "0 < R"
    and "containerHeight (params props) = Fin H" and "0 < H"
    and "random_ok rnd"
    and "q \<in> set (particles (tick props delta rnd w))"
  shows "velocityBounded q \<and> insideContainer (Fin 0.001) (params props) q
         \<and> (0.001 \<le> H \<longrightarrow> insideContainer (Fin 0) (params props) q)"
  using particle_loop_stable [OF assms(1-5)] assms(3,6)
  by (simp add: particles_tick stable_def)

theorem tick_stable_witness:
  "containerRadius (params (playing one_particle True)) = Fin 0.1 \<and> (0::real) < 0.1
   \<and> containerHeight (params (playing one_particle True)) = Fin 0.2 \<and> (0::real) < 0.2
   \<and> random_ok half_random
   \<and> particles (tick (playing one_particle True) (Fin 0.016) half_random moving_world) ! 0
        \<in> set (particles (tick (playing one_particle True) (Fin 0.016) half_random moving_world))
   \<and> velocityBounded
        (particles (tick (playing one_particle True) (Fin 0.016) half_random moving_world) ! 0)
   \<and> insideContainer (Fin 0) (params (playing one_particle True))
        (particles (tick (playing one_particle True) (Fin 0.016) half_random moving_world) ! 0)"
proof -
  have h1: "containerRadius (params (playing one_particle True)) = Fin 0.1"
    and h3: "containerHeight (params (playing one_particle True)) = Fin 0.2"
    by (simp_all add: moving_facts)
  have h2: "(0::real) < 0.1" and h4: "(0::real) < 0.2" and h7: "(0.001::real) \<le> 0.2"
    by simp_all
  have h6: "particles (tick (playing one_particle True) (Fin 0.016) half_random moving_world) ! 0
        \<in> set (particles (tick (playing one_particle True) (Fin 0.016) half_random moving_world))"
    by (simp add: length_particles_tick moving_facts)
  from tick_stable [OF h1 h2 h3 h4 random_ok_half h6] h1 h2 h3 h4 h6 h7 random_ok_half
  show ?thesis by blast
qed

section \<open>The empty ensemble\<close>

lemma lerp_NaN [simp]: "lerp NaN b t = NaN" "lerp a NaN t = NaN"
  by (simp_all add: lerp_def)

lemma frameAvgT_empty: "frameAvgT [] = NaN"
  by (simp add: frameAvgT_def sumT_def inf_of_sign_def)

lemma avg_tick:
  "s_avgSystemTemp (sim (tick props delta rnd w))
     = lerp (s_avgSystemTemp (smooth (params props) (sim w))) (frameAvgT (particles w)) (Fin 0.1)"
  by (simp add: sim_tick averaging_def)

lemma avg_smooth [simp]: "s_avgSystemTemp (smooth ps s) = s_avgSystemTemp s"
  by (simp add: smooth_def)

lemma empty_frames:
  assumes "particles w = []" and "\<forall>i. isPlaying (props i)"
  shows "particles (frames props delta rnd n w) = []
         \<and> (0 < n \<longrightarrow> s_avgSystemTemp (sim (frames props delta rnd n w)) = NaN)"
proof (induction n)
  case 0
  then show ?case using assms by simp
next
  case (Suc n)
  have "length (particles (frames props delta rnd (Suc n) w)) = 0"
    using Suc assms(2) by (simp add: useFrame_def length_particles_tick)
  moreover have "s_avgSystemTemp (sim (frames props delta rnd (Suc n) w)) = NaN"
    using Suc assms(2) by (simp add: useFrame_def avg_tick frameAvgT_empty)
  ultimately show ?case by simp
qed

text \<open>
  C10. With a particle count of zero the ensemble is empty, the average of the frame is
  \<open>0 / 0 = NaN\<close>, and the running average temperature is \<open>NaN\<close> after the first frame
  that runs and after every later one, whatever the configuration then is. The particle
  arrays stay empty; the update has no error result.
\<close>

theorem empty_ensemble_average_NaN:
  assumes "particleCount ps = 0" and "\<forall>i. isPlaying (props i)"
  shows "frameAvgT (particles (mount ps rnd0)) = NaN
    \<and> (\<forall>n. 0 < n \<longrightarrow> s_avgSystemTemp (sim (frames props delta rnd n (mount ps rnd0))) = NaN
                   \<and> particles (frames props delta rnd n (mount ps rnd0)) = [])"
proof -
  have e: "particles (mount ps rnd0) = []"
    using assms(1) by (simp add: mount_def)
  show ?thesis
    using empty_frames [OF e assms(2)] by (simp add: e frameAvgT_empty)
qed

theorem empty_ensemble_average_NaN_witness:
  "particleCount (DEFAULT_PARAMS\<lparr>particleCount := 0\<rparr>) = 0
   \<and> (\<forall>i::nat. isPlaying (playing (DEFAULT_PARAMS\<lparr>particleCount := 0\<rparr>) True))
   \<and> s_avgSystemTemp (sim (frames (\<lambda>_. playing (DEFAULT_PARAMS\<lparr>particleCount := 0\<rparr>) True)
         (\<lambda>_. Fin 0.016) (\<lambda>_. 0) 2 (mount (DEFAULT_PARAMS\<lparr>particleCount := 0\<rparr>) (\<lambda>_. 0)))) = NaN"
proof -
  have h1: "particleCount (DEFAULT_PARAMS\<lparr>particleCount := 0\<rparr>) = 0"
    by simp
  have h2: "\<forall>i::nat. isPlaying ((\<lambda>_. playing (DEFAULT_PARAMS\<lparr>particleCount := 0\<rparr>) True) i)"
    by (simp add: playing_def)
  from empty_ensemble_average_NaN [OF h1 h2] h1 h2 show ?thesis
    by simp
qed

section \<open>Bounds of the initializer\<close>

lemma init_particle_ok:
  assumes R: "containerRadius ps = Fin R" "0 < R"
    and H: "containerHeight ps = Fin H" "0 < H"
    and rnd: "random_ok rnd"
  shows "\<exists>r y m. radial (init_particle ps rnd k) = Fin r \<and> 0.001 \<le> r \<and> r \<le> max 0.001 (0.9 * R)
          \<and> pos_y (init_particle ps rnd k) = Fin y \<and> \<bar>y\<bar> \<le> H / 2
          \<and> vel_x (init_particle ps rnd k) = Fin 0 \<and> vel_y (init_particle ps rnd k) = Fin 0
          \<and> vel_z (init_particle ps rnd k) = Fin 0
          \<and> temp (init_particle ps rnd k) = tempFluidInitial ps
          \<and> meta (init_particle ps rnd k) = Fin m \<and> 0.8 \<le> m \<and> m \<le> 1.2"
proof -
  have u: "0 \<le> rnd j \<and> rnd j < 1" for j
    using rnd by (simp add: random_ok_def)
  define r where "r = max 0.001 (sqrt (rnd k) * R * 0.9)"
  define t where "t = rnd (k + 1) * 2 * pi"
  have "sqrt (rnd k) \<le> 1"
    using u [of k] by simp
  then have "sqrt (rnd k) * (R * 0.9) \<le> 1 * (R * 0.9)"
    using R(2) by (intro mult_right_mono) simp_all
  then have "sqrt (rnd k) * R * 0.9 \<le> 0.9 * R"
    by (simp add: mult.assoc mult.commute)
  then have "max 0.001 (sqrt (rnd k) * R * 0.9) \<le> max 0.001 (0.9 * R)"
    by (intro max.mono order_refl)
  moreover have "0.001 \<le> max 0.001 (sqrt (rnd k) * R * 0.9)"
    by (rule max.cobounded1)
  ultimately have r: "0.001 \<le> r" "r \<le> max 0.001 (0.9 * R)"
    unfolding r_def by blast+
  have px: "pos_x (init_particle ps rnd k) = Fin (r * cos t)"
    and pz: "pos_z (init_particle ps rnd k) = Fin (r * sin t)"
    using R u [of k] by (simp_all add: init_particle_def Let_def Math_random_def r_def t_def)
  have "radial (init_particle ps rnd k) = Fin \<bar>r\<bar>"
    by (simp add: radial_def px pz not_sum_squares_lt_zero sqrt_circle)
  then have rad: "radial (init_particle ps rnd k) = Fin r"
    using r by simp
  have py: "pos_y (init_particle ps rnd k) = Fin ((rnd (k + 2) - 0.5) * H)"
    using H by (simp add: init_particle_def Let_def Math_random_def)
  have "\<bar>rnd (k + 2) - 0.5\<bar> \<le> 0.5"
    using u [of "k + 2"] by (simp add: abs_if)
  then have "\<bar>rnd (k + 2) - 0.5\<bar> * H \<le> 0.5 * H"
    using H(2) by (intro mult_right_mono) simp_all
  then have y: "\<bar>(rnd (k + 2) - 0.5) * H\<bar> \<le> H / 2"
    using H(2) by (simp add: abs_mult)
  have m: "meta (init_particle ps rnd k) = Fin (0.8 + rnd (k + 3) * 0.4)"
    by (simp add: init_particle_def Let_def Math_random_def)
  have mb: "0.8 \<le> 0.8 + rnd (k + 3) * 0.4" "0.8 + rnd (k + 3) * 0.4 \<le> 1.2"
    using u [of "k + 3"] by simp_all
  have rest: "vel_x (init_particle ps rnd k) = Fin 0" "vel_y (init_particle ps rnd k) = Fin 0"
    "vel_z (init_particle ps rnd k) = Fin 0" "temp (init_particle ps rnd k) = tempFluidInitial ps"
    by (simp_all add: init_particle_def Let_def)
  from rad r py y m mb rest show ?thesis by blast
qed

lemma init_loop_set:
  "p \<in> set (init_loop ps rnd k n) \<Longrightarrow> \<exists>j. p = init_particle ps rnd j"
  by (induction n arbitrary: k) auto

lemma random_ok_zero [simp]: "random_ok zero_random"
  by (simp add: random_ok_def zero_random_def)

lemma radial_axis: "pos_x p = Fin a \<Longrightarrow> pos_z p = Fin 0 \<Longrightarrow> radial p = Fin \<bar>a\<bar>"
  by (simp add: radial_def not_sum_squares_lt_zero)

text \<open>
  C7, as amended. For a container of positive radius \<open>R\<close> and height \<open>H\<close>, every particle
  of a freshly mounted ensemble has a radial distance \<open>r\<close> with
  \<open>0.001 \<le> r \<le> max 0.001 (0.9 R)\<close> (so \<open>r \<le> 0.9 R\<close> as soon as \<open>0.9 R \<ge> 0.001\<close>), a height
  within \<open>H / 2\<close> of the mid-plane, velocity zero, the configured initial fluid temperature,
  and a variance in \<open>[0.8, 1.2]\<close>.
\<close>

theorem initializer_bounds:
  assumes "containerRadius ps = Fin R" and "0 < R"
    and "containerHeight ps = Fin H" and "0 < H"
    and "random_ok rnd"
    and "p \<in> set (particles (mount ps rnd))"
  shows "\<exists>r y m. radial p = Fin r \<and> 0.001 \<le> r \<and> r \<le> max 0.001 (0.9 * R)
          \<and> pos_y p = Fin y \<and> \<bar>y\<bar> \<le> H / 2
          \<and> vel_x p = Fin 0 \<and> vel_y p = Fin 0 \<and> vel_z p = Fin 0
          \<and> temp p = tempFluidInitial ps
          \<and> meta p = Fin m \<and> 0.8 \<le> m \<and> m \<le> 1.2"
proof -
  from assms(6) obtain j where "p = init_particle ps rnd j"
    by (auto simp: mount_def dest: init_loop_set)
  then show ?thesis
    using init_particle_ok [OF assms(1-5), of j] by simp
qed

lemma mount_one_particle:
  "particleCount ps = 1 \<Longrightarrow> particles (mount ps rnd) = [init_particle ps rnd 0]"
  by (simp add: mount_def)

theorem initializer_bounds_witness:
  "containerRadius one_particle = Fin 0.1 \<and> (0::real) < 0.1
   \<and> containerHeight one_particle = Fin 0.2 \<and> (0::real) < 0.2
   \<and> random_ok zero_random
   \<and> init_particle one_particle zero_random 0 \<in> set (particles (mount one_particle zero_random))
   \<and> (\<exists>r. radial (init_particle one_particle zero_random 0) = Fin r
           \<and> 0.001 \<le> r \<and> r \<le> max 0.001 (0.9 * 0.1))
   \<and> temp (init_particle one_particle zero_random 0) = tempFluidInitial one_particle"
proof -
  have h1: "containerRadius one_particle = Fin 0.1"
    and h3: "containerHeight one_particle = Fin 0.2"
    by (simp_all add: one_particle_def DEFAULT_PARAMS_def)
  have h2: "(0::real) < 0.1" and h4: "(0::real) < 0.2"
    by simp_all
  have h6: "init_particle one_particle zero_random 0
              \<in> set (particles (mount one_particle zero_random))"
    by (simp add: mount_one_particle one_particle_def)
  from initializer_bounds [OF h1 h2 h3 h4 random_ok_zero h6] h1 h2 h3 h4 h6 random_ok_zero
  show ?thesis
    by blast
qed

text \<open>
  C7 as stated fails for a small container: with a radius of \<open>0.001\<close> the floor of
  \<open>0.001\<close> on the radial coordinate puts the particle beyond \<open>0.9\<close> times the radius.
\<close>

theorem initializer_tiny_radius:
  "containerRadius tiny_container = Fin 0.001
   \<and> containerHeight tiny_container = Fin 0.2
   \<and> particleCount tiny_container = 1
   \<and> random_ok zero_random
   \<and> particles (mount tiny_container zero_random) = [init_particle tiny_container zero_random 0]
   \<and> radial (init_particle tiny_container zero_random 0) = Fin 0.001
   \<and> \<not> radial (init_particle tiny_container zero_random 0) \<le> Fin 0.9 * containerRadius tiny_container"
proof -
  have x: "pos_x (init_particle tiny_container zero_random 0) = Fin 0.001"
    "pos_z (init_particle tiny_container zero_random 0) = Fin 0"
    by (simp_all add: init_particle_def Let_def Math_random_def zero_random_def
        tiny_container_def DEFAULT_PARAMS_def)
  have r: "radial (init_particle tiny_container zero_random 0) = Fin 0.001"
    using radial_axis [OF x] by simp
  have c: "containerRadius tiny_container = Fin 0.001" "containerHeight tiny_container = Fin 0.2"
    "particleCount tiny_container = 1"
    by (simp_all add: tiny_container_def DEFAULT_PARAMS_def)
  show ?thesis
    by (simp add: r c mount_one_particle)
qed

section \<open>A frame of zero duration\<close>

lemma lerp_zero [simp]: "lerp (Fin a) (Fin b) (Fin 0) = Fin a"
  by simp

lemma radial_finite:
  "isFinite (pos_x p) \<Longrightarrow> isFinite (pos_z p) \<Longrightarrow> \<exists>r. radial p = Fin r \<and> 0 \<le> r"
  by (auto simp: isFinite_iff radial_def not_sum_squares_lt_zero)

lemma conduction_zero_dt:
  assumes "finite_sim s" and "isFinite (temp p)" and "isFinite (pos_y p)"
    and "isFinite (containerHeight ps)"
  shows "conduction ps s (Fin 0) p = p"
  using assms
  by (auto simp: finite_sim_def isFinite_iff conduction_def Let_def thermalRate_def halfH_def)

lemma cooling_zero_dt:
  assumes "finite_sim s" and "isFinite (temp p)"
  shows "cooling ps s (Fin 0) p = p"
  using assms
  by (auto simp: finite_sim_def isFinite_iff cooling_def Let_def thermalRate_def)

lemma bulkMixing_zero_dt:
  assumes "finite_sim s" and "isFinite (temp p)"
  shows "bulkMixing s (Fin 0) cc p = p"
  using assms
  by (auto simp: finite_sim_def isFinite_iff bulkMixing_def thermalRate_def)

lemma thermalPhysics_zero_dt:
  assumes "finite_sim s" and "isFinite (temp p)" and "isFinite (pos_y p)"
    and "isFinite (containerHeight ps)"
  shows "thermalPhysics ps s (Fin 0) cc p = p"
  using assms
  by (simp add: thermalPhysics_def conduction_zero_dt cooling_zero_dt bulkMixing_zero_dt)

lemma densityFactor_finite:
  "finite_params ps \<Longrightarrow> \<exists>d. densityFactor ps = Fin d"
  by (auto simp: finite_params_def densityFactor_def isFinite_iff split: option.splits)

lemma inertiaFactor_finite:
  assumes "finite_params ps" and "finite_sim s"
  shows "\<exists>i. inertiaFactor ps s = Fin i \<and> 0.01 \<le> i"
proof -
  obtain d where "densityFactor ps = Fin d"
    using densityFactor_finite [OF assms(1)] by blast
  moreover obtain r where "s_density s = Fin r"
    using assms(2) by (auto simp: finite_sim_def isFinite_iff)
  ultimately show ?thesis
    by (simp add: inertiaFactor_def safeDensity_def)
qed

lemma dragFactor_zero_dt:
  assumes "finite_params ps" and "finite_sim s"
  shows "dragFactor ps s (Fin 0) = Fin 0.999"
proof -
  obtain i where "inertiaFactor ps s = Fin i" "0.01 \<le> i"
    using inertiaFactor_finite [OF assms] by blast
  moreover obtain v where "s_viscosity s = Fin v"
    using assms(2) by (auto simp: finite_sim_def isFinite_iff)
  ultimately show ?thesis
    by (simp add: dragFactor_def dragCoeff_def)
qed

lemma toroidal_finite:
  assumes "finite_sim s" and "finite_particle p"
    and "containerRadius ps = Fin R" and "R \<noteq> 0"
    and "containerHeight ps = Fin H" and "H \<noteq> 0"
  shows "\<exists>a b. toroidal ps s cc p = (Fin a, Fin b)"
proof -
  obtain r where r: "radial p = Fin r" "0 \<le> r"
    using radial_finite assms(2) by (auto simp: finite_particle_def)
  obtain x y z T where p: "pos_x p = Fin x" "pos_y p = Fin y" "pos_z p = Fin z" "temp p = Fin T"
    using assms(2) by (auto simp: finite_particle_def isFinite_iff)
  obtain avg where avg: "s_avgSystemTemp s = Fin avg"
    using assms(1) by (auto simp: finite_sim_def isFinite_iff)
  show ?thesis
    using r p avg assms(3-6)
    by (simp add: toroidal_def Let_def tempDiff_def halfH_def)
qed

lemma boiling_finite:
  assumes "finite_sim s" and "isFinite (temp p)"
  shows "\<exists>f. snd (boiling ps s p) = Fin f"
  using assms
  by (auto simp: finite_sim_def isFinite_iff boiling_def buoyancy_def tempDiff_def)

lemma forces_finite:
  assumes "finite_sim s" and "finite_particle p"
    and "containerRadius ps = Fin R" and "R \<noteq> 0"
    and "containerHeight ps = Fin H" and "H \<noteq> 0"
  shows "\<exists>fx fy fz. forces ps s cc rnd k p = (Fin fx, Fin fy, Fin fz)"
proof -
  obtain a b where "toroidal ps s cc p = (Fin a, Fin b)"
    using toroidal_finite [OF assms] by blast
  moreover have "isFinite (temp p)"
    using assms(2) by (simp add: finite_particle_def)
  then obtain f where "snd (boiling ps s p) = Fin f"
    using boiling_finite [OF assms(1)] by blast
  moreover obtain T where "temp p = Fin T"
    using assms(2) by (auto simp: finite_particle_def isFinite_iff)
  ultimately show ?thesis
    by (simp add: forces_def Let_def Math_random_def)
qed

lemma clampVelocity_Fin: "clampVelocity (Fin a) = Fin (max (- 10) (min 10 a))"
  by (simp add: clampVelocity_def MAX_VELOCITY_def)

lemma integration_zero_dt:
  assumes "finite_params ps" and "finite_sim s" and "finite_particle p"
  shows "integration ps s (Fin 0) (Fin fx, Fin fy, Fin fz) p
           = p\<lparr>vel_x := clampVelocity (vel_x p * Fin 0.999),
                vel_y := clampVelocity (vel_y p * Fin 0.999),
                vel_z := clampVelocity (vel_z p * Fin 0.999)\<rparr>"
proof -
  obtain i where i: "inertiaFactor ps s = Fin i" "0.01 \<le> i"
    using inertiaFactor_finite [OF assms(1,2)] by blast
  obtain x y z u v w where p: "pos_x p = Fin x" "pos_y p = Fin y" "pos_z p = Fin z"
    "vel_x p = Fin u" "vel_y p = Fin v" "vel_z p = Fin w"
    using assms(3) by (auto simp: finite_particle_def isFinite_iff)
  show ?thesis
    using i p by (simp add: integration_def Let_def dragFactor_zero_dt [OF assms(1,2)]
        clampVelocity_Fin)
qed

lemma update_particle_eq:
  "update_particle ps s dt cc shm rnd k p
     = (visualization ps s shm (fst (safety ps s rnd (k + 3) (beforeSafety ps s dt cc rnd k p))),
        snd (safety ps s rnd (k + 3) (beforeSafety ps s dt cc rnd k p)))"
  by (simp add: update_particle_def beforeSafety_def Let_def case_prod_beta)

lemma constrained_temp:
  "temp (walls ps (ceiling_bounce ps (floor_bounce ps s p)))
     = (if pos_y p < - halfH ps then lerp (temp p) (s_tempSurface s) (Fin 0.2) else temp p)"
  by (simp add: walls_def ceiling_bounce_def floor_bounce_def Let_def)

lemma constrained_finite:
  assumes "isFinite (pos_x p)" and "isFinite (pos_y p)" and "isFinite (pos_z p)"
    and "isFinite (containerRadius ps)" and "isFinite (containerHeight ps)"
  shows "\<not> blownUp (walls ps (ceiling_bounce ps (floor_bounce ps s p)))"
proof -
  obtain x z where xz: "pos_x p = Fin x" "pos_z p = Fin z"
    using assms by (auto simp: isFinite_iff)
  obtain t where "Math_atan2 (pos_z p) (pos_x p) = Fin t"
    using xz by simp
  then show ?thesis
    using assms
    by (auto simp: isFinite_iff blownUp_def walls_def ceiling_bounce_def floor_bounce_def
        Let_def radial_def halfH_def)
qed

lemma fl_le_not_less: "a \<le> b \<Longrightarrow> \<not> b < (a::fl)"
  by (cases a; cases b) auto

lemma plus_Fin_0 [simp]: "a + Fin 0 = a" "Fin 0 + a = a"
  by (cases a; simp)+

lemma constrained_inside:
  assumes "insideContainer (Fin 0) ps p"
  shows "walls ps (ceiling_bounce ps (floor_bounce ps s p)) = p"
  using assms
  by (simp add: insideContainer_def walls_def ceiling_bounce_def floor_bounce_def Let_def
      fl_le_not_less)

lemma zero_dt_particle:
  assumes fp: "finite_params ps" and fs: "finite_sim s" and fq: "finite_particle p"
    and R: "containerRadius ps = Fin R" "R \<noteq> 0"
    and H: "containerHeight ps = Fin H" "H \<noteq> 0"
    and q: "q = fst (update_particle ps s (Fin 0) cc shm rnd k p)"
  shows "temp q = (if pos_y p < - halfH ps then lerp (temp p) (s_tempSurface s) (Fin 0.2)
                   else temp p)"
    and "insideContainer (Fin 0) ps p \<Longrightarrow>
           pos_x q = pos_x p \<and> pos_y q = pos_y p \<and> pos_z q = pos_z p
           \<and> vel_x q = clampVelocity (vel_x p * Fin 0.999)
           \<and> vel_y q = clampVelocity (vel_y p * Fin 0.999)
           \<and> vel_z q = clampVelocity (vel_z p * Fin 0.999)"
proof -
  have fin: "isFinite (temp p)" "isFinite (pos_x p)" "isFinite (pos_y p)" "isFinite (pos_z p)"
    using fq by (simp_all add: finite_particle_def)
  have geo: "isFinite (containerRadius ps)" "isFinite (containerHeight ps)"
    using R H by simp_all
  have p1: "thermalPhysics ps s (Fin 0) cc p = p"
    using fs fin(1,3) geo(2) by (rule thermalPhysics_zero_dt)
  obtain fx fy fz where f: "forces ps s cc rnd k p = (Fin fx, Fin fy, Fin fz)"
    using forces_finite [OF fs fq R H] by blast
  define p2 where "p2 = p\<lparr>pstate := fst (boiling ps s p)\<rparr>"
  define p3 where "p3 = p2\<lparr>vel_x := clampVelocity (vel_x p * Fin 0.999),
                            vel_y := clampVelocity (vel_y p * Fin 0.999),
                            vel_z := clampVelocity (vel_z p * Fin 0.999)\<rparr>"
  have "finite_particle p2"
    using fq by (simp add: p2_def finite_particle_def)
  then have "integration ps s (Fin 0) (Fin fx, Fin fy, Fin fz) p2 = p3"
    using integration_zero_dt [OF fp fs, of p2 fx fy fz] by (simp add: p3_def p2_def)
  then have bs: "beforeSafety ps s (Fin 0) cc rnd k p
                   = walls ps (ceiling_bounce ps (floor_bounce ps s p3))"
    by (simp add: beforeSafety_def Let_def p1 f p2_def)
  have p3: "pos_x p3 = pos_x p" "pos_y p3 = pos_y p" "pos_z p3 = pos_z p" "temp p3 = temp p"
    by (simp_all add: p3_def p2_def)
  have "\<not> blownUp (walls ps (ceiling_bounce ps (floor_bounce ps s p3)))"
    using fin geo by (intro constrained_finite) (simp_all add: p3)
  then have q': "q = visualization ps s shm (walls ps (ceiling_bounce ps (floor_bounce ps s p3)))"
    by (simp add: q update_particle_eq bs safety_def)
  show "temp q = (if pos_y p < - halfH ps then lerp (temp p) (s_tempSurface s) (Fin 0.2)
                  else temp p)"
    by (simp add: q' constrained_temp p3)
  assume "insideContainer (Fin 0) ps p"
  then have "insideContainer (Fin 0) ps p3"
    by (simp add: insideContainer_def radial_def p3)
  then have "q = visualization ps s shm p3"
    by (simp add: q' constrained_inside)
  then show "pos_x q = pos_x p \<and> pos_y q = pos_y p \<and> pos_z q = pos_z p
           \<and> vel_x q = clampVelocity (vel_x p * Fin 0.999)
           \<and> vel_y q = clampVelocity (vel_y p * Fin 0.999)
           \<and> vel_z q = clampVelocity (vel_z p * Fin 0.999)"
    by (simp add: p3_def p2_def)
qed

lemma particle_loop_nth:
  "i < length parts \<Longrightarrow>
     \<exists>j. fst (particle_loop ps s dt cc shm rnd k parts) ! i
            = fst (update_particle ps s dt cc shm rnd j (parts ! i))"
proof (induction parts arbitrary: k i)
  case Nil
  then show ?case by simp
next
  case (Cons p rest)
  show ?case
  proof (cases i)
    case 0
    then show ?thesis by (auto simp: case_prod_beta)
  next
    case (Suc n)
    with Cons.prems have "n < length rest" by simp
    from Cons.IH [OF this] Suc show ?thesis
      by (simp add: case_prod_beta)
  qed
qed

lemma smooth_finite:
  assumes "finite_params ps" and "finite_sim s"
  shows "finite_sim (smooth ps s)"
  using assms
  by (auto simp: finite_params_def finite_sim_def smooth_def lerpRate_def isFinite_iff)

lemma foldl_temp_finite:
  "isFinite a \<Longrightarrow> \<forall>p \<in> set parts. isFinite (temp p) \<Longrightarrow>
     isFinite (foldl (\<lambda>a p. a + temp p) a parts)"
  by (induction parts arbitrary: a) (auto simp: isFinite_iff)

lemma averaging_finite:
  assumes "finite_sim s" and "\<forall>p \<in> set parts. isFinite (temp p)" and "parts \<noteq> []"
  shows "finite_sim (averaging parts s)"
proof -
  have "isFinite (sumT parts)"
    unfolding sumT_def using assms(2) by (intro foldl_temp_finite) simp_all
  then obtain t where "sumT parts = Fin t"
    by (auto simp: isFinite_iff)
  moreover have "real (length parts) \<noteq> 0"
    using assms(3) by simp
  ultimately have "\<exists>a. frameAvgT parts = Fin a"
    by (simp add: frameAvgT_def)
  then show ?thesis
    using assms(1) by (auto simp: finite_sim_def averaging_def isFinite_iff)
qed

lemma zero_dt_tick:
  assumes fp: "finite_params (params props)"
    and R: "containerRadius (params props) = Fin R" "0 < R"
    and H: "containerHeight (params props) = Fin H" "0 < H"
    and fs: "finite_sim (sim w)"
    and fq: "\<forall>p \<in> set (particles w). finite_particle p"
    and i: "i < length (particles w)"
    and p: "p = particles w ! i"
    and q: "q = particles (tick props (Fin 0) rnd w) ! i"
  shows "(temp q \<noteq> temp p \<longrightarrow>
            pos_y p < - halfH (params props)
            \<and> temp q = lerp (temp p) (s_tempSurface (sim (tick props (Fin 0) rnd w))) (Fin 0.2))
       \<and> (insideContainer (Fin 0) (params props) p \<longrightarrow>
            pos_x q = pos_x p \<and> pos_y q = pos_y p \<and> pos_z q = pos_z p \<and> temp q = temp p
            \<and> vel_x q = clampVelocity (vel_x p * Fin 0.999)
            \<and> vel_y q = clampVelocity (vel_y p * Fin 0.999)
            \<and> vel_z q = clampVelocity (vel_z p * Fin 0.999))"
proof -
  define s where "s = averaging (particles w) (smooth (params props) (sim w))"
  have ne: "particles w \<noteq> []"
    using i by auto
  have "\<forall>p \<in> set (particles w). isFinite (temp p)"
    using fq by (simp add: finite_particle_def)
  then have s: "finite_sim s"
    unfolding s_def using smooth_finite [OF fp fs] ne by (intro averaging_finite) simp_all
  have fi: "finite_particle p"
    using fq i p by simp
  obtain j where "fst (particle_loop (params props) s (Fin 0) (canConvect (computedValues props))
                    (showHeatMap props) rnd (drawn w) (particles w)) ! i
                  = fst (update_particle (params props) s (Fin 0)
                      (canConvect (computedValues props)) (showHeatMap props) rnd j (particles w ! i))"
    using particle_loop_nth [OF i] by blast
  then have qq: "q = fst (update_particle (params props) s (Fin 0)
                      (canConvect (computedValues props)) (showHeatMap props) rnd j p)"
    by (simp add: q p particles_tick s_def)
  have R0: "R \<noteq> 0" and H0: "H \<noteq> 0"
    using R(2) H(2) by simp_all
  note t = zero_dt_particle(1) [OF fp s fi R(1) R0 H(1) H0 qq]
  note k = zero_dt_particle(2) [OF fp s fi R(1) R0 H(1) H0 qq]
  have st: "sim (tick props (Fin 0) rnd w) = s"
    by (simp add: sim_tick s_def)
  have inside: "temp q = temp p" if "insideContainer (Fin 0) (params props) p"
    using that t by (simp add: insideContainer_def fl_le_not_less)
  show ?thesis
    using t k inside by (auto simp: st split: if_splits)
qed

text \<open>
  C2, as amended. In a frame of zero elapsed time, with a finite configuration and finite
  state: the temperature of a particle changes only through the floor bounce (the
  \<open>0.2\<close> step towards the surface temperature), and only if the particle was below the floor
  before the frame; a particle within the container keeps its position and its temperature,
  and each of its velocity components \<open>v\<close> becomes \<open>clamp (0.999 v)\<close>: the drag factor is
  capped at \<open>0.999\<close>, so a moving particle does not keep its velocity.
\<close>

theorem zero_duration_frame:
  assumes "finite_params (params props)"
    and "containerRadius (params props) = Fin R" and "0 < R"
    and "containerHeight (params props) = Fin H" and "0 < H"
    and "finite_sim (sim w)"
    and "\<forall>p \<in> set (particles w). finite_particle p"
    and "i < length (particles w)"
    and "p = particles w ! i"
    and "q = particles (tick props (Fin 0) rnd w) ! i"
  shows "(temp q \<noteq> temp p \<longrightarrow>
            pos_y p < - halfH (params props)
            \<and> temp q = lerp (temp p) (s_tempSurface (sim (tick props (Fin 0) rnd w))) (Fin 0.2))
       \<and> (insideContainer (Fin 0) (params props) p \<longrightarrow>
            pos_x q = pos_x p \<and> pos_y q = pos_y p \<and> pos_z q = pos_z p \<and> temp q = temp p
            \<and> vel_x q = clampVelocity (vel_x p * Fin 0.999)
            \<and> vel_y q = clampVelocity (vel_y p * Fin 0.999)
            \<and> vel_z q = clampVelocity (vel_z p * Fin 0.999))"
  using assms by (rule zero_dt_tick)

theorem zero_duration_frame_witness:
  "finite_params (params (playing one_particle True))
   \<and> containerRadius (params (playing one_particle True)) = Fin 0.1 \<and> (0::real) < 0.1
   \<and> containerHeight (params (playing one_particle True)) = Fin 0.2 \<and> (0::real) < 0.2
   \<and> finite_sim (sim moving_world)
   \<and> particles moving_world = [moving_particle] \<and> finite_particle moving_particle
   \<and> 0 < length (particles moving_world)
   \<and> insideContainer (Fin 0) (params (playing one_particle True)) (particles moving_world ! 0)
   \<and> pos_x (particles (tick (playing one_particle True) (Fin 0) half_random moving_world) ! 0)
       = pos_x (particles moving_world ! 0)
   \<and> temp (particles (tick (playing one_particle True) (Fin 0) half_random moving_world) ! 0)
       = temp (particles moving_world ! 0)"
proof -
  have h1: "finite_params (params (playing one_particle True))"
    and h2: "containerRadius (params (playing one_particle True)) = Fin 0.1"
    and h4: "containerHeight (params (playing one_particle True)) = Fin 0.2"
    and h6: "finite_sim (sim moving_world)"
    and h7: "\<forall>p \<in> set (particles moving_world). finite_particle p"
    and h8: "0 < length (particles moving_world)"
    and h9: "insideContainer (Fin 0) (params (playing one_particle True))
               (particles moving_world ! 0)"
    by (simp_all add: moving_facts)
  have h3: "(0::real) < 0.1" and h5: "(0::real) < 0.2"
    by simp_all
  have h10: "particles moving_world = [moving_particle]" "finite_particle moving_particle"
    by (simp_all add: moving_facts)
  from zero_duration_frame [OF h1 h2 h3 h4 h5 h6 h7 h8 refl refl, of half_random]
    h1 h2 h3 h4 h5 h6 h8 h9 h10
  show ?thesis by blast
qed

text \<open>
  C2 as stated fails on the velocities: the particle at the centre of the container moving at
  \<open>1 m/s\<close> has the velocity \<open>0.999 m/s\<close> after a frame of zero elapsed time.
\<close>

theorem zero_duration_frame_slows:
  "vel_x (particles moving_world ! 0) = Fin 1
   \<and> vel_x (particles (tick (playing one_particle True) (Fin 0) half_random moving_world) ! 0)
       = Fin 0.999"
proof -
  have h3: "(0::real) < 0.1" and h5: "(0::real) < 0.2"
    by simp_all
  have "vel_x (particles (tick (playing one_particle True) (Fin 0) half_random moving_world) ! 0)
          = clampVelocity (vel_x (particles moving_world ! 0) * Fin 0.999)"
    using zero_dt_tick [of "playing one_particle True" "0.1" "0.2" moving_world 0
        "particles moving_world ! 0" _ half_random, OF _ _ h3 _ h5 _ _ _ refl refl]
    by (simp add: moving_facts)
  then show ?thesis
    by (simp add: moving_facts clampVelocity_Fin moving_particle_def)
qed

section \<open>Single frames, evaluated\<close>

lemma tick_nth:
  assumes "i < length (particles w)"
  shows "\<exists>j. particles (tick props delta rnd w) ! i
           = fst (update_particle (params props) (sim (tick props delta rnd w))
                   (Math_min delta (Fin 0.05)) (canConvect (computedValues props))
                   (showHeatMap props) rnd j (particles w ! i))"
  using particle_loop_nth [OF assms] by (simp add: particles_tick sim_tick)

lemma default_frame_constants:
  "inertiaFactor one_particle (init_simState one_particle) = Fin 0.998"
  "dragFactor one_particle (init_simState one_particle) frame_time
     = Fin (1 - 0.1002 / 0.998 * 0.016)"
  "thermalRate (init_simState one_particle) = Fin 0.01144"
  "halfH one_particle = Fin 0.1"
  by (simp_all add: inertiaFactor_def safeDensity_def densityFactor_def dragFactor_def
      dragCoeff_def thermalRate_def halfH_def init_simState_def one_particle_def
      DEFAULT_PARAMS_def frame_time_def)

lemma forces_no_convection:
  "forces ps s False rnd k p
     = (Fin 0 + (Math_random rnd k - Fin 0.5) * (temp p / Fin 500 * Fin 0.05),
        snd (boiling ps s p) + (Math_random rnd (k + 1) - Fin 0.5) * (temp p / Fin 500 * Fin 0.05),
        Fin 0 + (Math_random rnd (k + 2) - Fin 0.5) * (temp p / Fin 500 * Fin 0.05))"
  by (simp add: forces_def toroidal_def Let_def)

lemma tick_single:
  assumes "particles w = [p]"
  shows "particles (tick props delta rnd w)
           = [fst (update_particle (params props) (sim (tick props delta rnd w))
                 (Math_min delta (Fin 0.05)) (canConvect (computedValues props))
                 (showHeatMap props) rnd (drawn w) p)]"
  using assms by (simp add: particles_tick sim_tick case_prod_beta)

lemma short_time_min: "Math_min short_time (Fin 0.05) = short_time"
  by (simp add: short_time_def Math_min_def)

lemma frame_time_min: "Math_min frame_time (Fin 0.05) = frame_time"
  by (simp add: frame_time_def Math_min_def)

lemma boiling_phaseAndLift: "boiling ps s p = phaseAndLift ps s (temp p)"
  by (simp add: boiling_def phaseAndLift_def buoyancy_def tempDiff_def)

lemma update_particle_forces:
  "update_particle ps s dt cc shm rnd k p
     = (let p1 = thermalPhysics ps s dt cc p;
            jitter = temp p1 / Fin 500 * Fin 0.05;
            fx = fst (toroidal ps s cc p1) + (Math_random rnd k - Fin 0.5) * jitter;
            fy = snd (boiling ps s p1) + (Math_random rnd (k + 1) - Fin 0.5) * jitter;
            fz = snd (toroidal ps s cc p1) + (Math_random rnd (k + 2) - Fin 0.5) * jitter;
            p3 = integration ps s dt (fx, fy, fz) (p1\<lparr>pstate := fst (boiling ps s p1)\<rparr>)
        in case safety ps s rnd (k + 3) (walls ps (ceiling_bounce ps (floor_bounce ps s p3))) of
             (p5, k') \<Rightarrow> (visualization ps s shm p5, k'))"
  by (simp add: update_particle_def forces_def Let_def case_prod_beta)

lemma integration_vel_y:
  "vel_y (integration ps s dt (fx, fy, fz) q)
     = clampVelocity ((vel_y q + fy * dt / inertiaFactor ps s) * dragFactor ps s dt)"
  by (simp add: integration_def Let_def)

lemma hot_thermal:
  "thermalPhysics one_particle (init_simState one_particle) frame_time False hot_particle
     = hot_particle"
  by (simp add: thermalPhysics_def bulkMixing_def cooling_def conduction_def Let_def radial_def
      default_frame_constants hot_particle_def moving_particle_def)
    (simp add: init_simState_def one_particle_def DEFAULT_PARAMS_def frame_time_def)

lemma hot_phase:
  "phaseAndLift one_particle (init_simState one_particle) (temp hot_particle) = (1, Fin 19.62)"
  by (simp add: phaseAndLift_def hot_particle_def init_simState_def one_particle_def
      DEFAULT_PARAMS_def)

lemma hot_update:
  "fst (update_particle one_particle (init_simState one_particle) frame_time False True
          half_random 0 hot_particle)
     = visualization one_particle (init_simState one_particle) True
         (hot_particle\<lparr>pstate := 1,
            vel_x := Fin (1 - 0.1002 / 0.998 * 0.016),
            vel_y := Fin (19.62 * 0.016 / 0.998 * (1 - 0.1002 / 0.998 * 0.016)),
            pos_x := Fin ((1 - 0.1002 / 0.998 * 0.016) * 0.016),
            pos_y := Fin (19.62 * 0.016 / 0.998 * (1 - 0.1002 / 0.998 * 0.016) * 0.016)\<rparr>)"
proof -
  define p3 where "p3 = hot_particle\<lparr>pstate := 1,
            vel_x := Fin (1 - 0.1002 / 0.998 * 0.016),
            vel_y := Fin (19.62 * 0.016 / 0.998 * (1 - 0.1002 / 0.998 * 0.016)),
            pos_x := Fin ((1 - 0.1002 / 0.998 * 0.016) * 0.016),
            pos_y := Fin (19.62 * 0.016 / 0.998 * (1 - 0.1002 / 0.998 * 0.016) * 0.016)\<rparr>"
  have f: "forces one_particle (init_simState one_particle) False half_random 0 hot_particle
             = (Fin 0, Fin 19.62, Fin 0)"
    by (simp add: forces_no_convection boiling_phaseAndLift hot_phase)
      (simp add: Math_random_def half_random_def hot_particle_def)
  have i: "integration one_particle (init_simState one_particle) frame_time
             (Fin 0, Fin 19.62, Fin 0) (hot_particle\<lparr>pstate := 1\<rparr>) = p3"
    by (simp add: integration_def Let_def default_frame_constants hot_particle_def
        moving_particle_def p3_def)
      (simp add: frame_time_def clampVelocity_Fin)
  have bs: "beforeSafety one_particle (init_simState one_particle) frame_time False half_random 0
              hot_particle
            = walls one_particle (ceiling_bounce one_particle
                (floor_bounce one_particle (init_simState one_particle) p3))"
    unfolding beforeSafety_def Let_def hot_thermal f boiling_phaseAndLift hot_phase fst_conv i
    by (rule refl)
  have r: "radial p3 = Fin \<bar>(1 - 0.1002 / 0.998 * 0.016) * 0.016\<bar>"
    by (rule radial_axis) (simp_all add: p3_def hot_particle_def moving_particle_def)
  have "insideContainer (Fin 0) one_particle p3"
    unfolding insideContainer_def r
    by (simp add: default_frame_constants moving_facts)
      (simp add: p3_def hot_particle_def moving_particle_def)
  then have c: "walls one_particle (ceiling_bounce one_particle
                  (floor_bounce one_particle (init_simState one_particle) p3)) = p3"
    by (rule constrained_inside)
  have "\<not> blownUp p3"
    by (simp add: blownUp_def p3_def hot_particle_def moving_particle_def)
  then have "fst (update_particle one_particle (init_simState one_particle) frame_time False True
          half_random 0 hot_particle)
     = visualization one_particle (init_simState one_particle) True p3"
    unfolding update_particle_eq bs c by (simp add: safety_def)
  then show ?thesis
    unfolding p3_def .
qed

lemma hot_world_sim:
  "averaging (particles hot_world) (smooth one_particle (sim hot_world))
     = init_simState one_particle"
  by (simp add: averaging_def smooth_def frameAvgT_def sumT_def lerp_def lerpRate_def
      hot_world_def init_simState_def one_particle_def DEFAULT_PARAMS_def hot_particle_def
      moving_particle_def)

lemma hot_tick:
  "particles (tick (playing_at one_particle (Fin 0)) frame_time half_random hot_world)
     = [fst (update_particle one_particle (init_simState one_particle) frame_time False True
               half_random 0 hot_particle)]"
proof -
  have p: "particles hot_world = [hot_particle]" and d: "drawn hot_world = 0"
    by (simp_all add: hot_world_def)
  have a: "params (playing_at one_particle (Fin 0)) = one_particle"
    "showHeatMap (playing_at one_particle (Fin 0)) = True"
    "canConvect (computedValues (playing_at one_particle (Fin 0))) = False"
    by (simp_all add: playing_at_def playing_def canConvect_def)
  have s: "sim (tick (playing_at one_particle (Fin 0)) frame_time half_random hot_world)
             = init_simState one_particle"
    unfolding sim_tick a by (rule hot_world_sim)
  show ?thesis
    unfolding tick_single [OF p] s a d frame_time_min by (rule refl)
qed

lemma marginal_constants:
  "inertiaFactor marginal_params marginal_sim = Fin 0.01"
  "dragFactor marginal_params marginal_sim short_time = Fin 0.999"
  "thermalRate marginal_sim = Fin 80000"
  "halfH marginal_params = Fin 0.5"
  "containerRadius marginal_params = Fin 1"
  "containerHeight marginal_params = Fin 1"
  "s_avgSystemTemp marginal_sim = Fin 1"
  by (simp_all add: inertiaFactor_def safeDensity_def densityFactor_def dragFactor_def
      dragCoeff_def thermalRate_def halfH_def init_simState_def marginal_sim_def
      marginal_params_def short_time_def)

lemma cold_radial: "radial cold_particle = Fin 0.5"
proof -
  have "radial cold_particle = Fin \<bar>0.5\<bar>"
    by (rule radial_axis) (simp_all add: cold_particle_def)
  then show ?thesis by simp
qed

lemma cold_unmixed:
  "cooling marginal_params marginal_sim short_time
     (conduction marginal_params marginal_sim short_time cold_particle) = cold_particle"
proof -
  have "conduction marginal_params marginal_sim short_time cold_particle = cold_particle"
    by (simp add: conduction_def Let_def marginal_constants cold_particle_def)
  then show ?thesis
    by (simp add: cooling_def Let_def cold_radial marginal_constants)
      (simp add: cold_particle_def)
qed

lemma cold_thermal:
  "thermalPhysics marginal_params marginal_sim short_time True cold_particle
     = cold_particle\<lparr>temp := Fin 0.08\<rparr>"
  "thermalPhysics marginal_params marginal_sim short_time False cold_particle = cold_particle"
  by (simp_all add: thermalPhysics_def bulkMixing_def cold_unmixed marginal_constants)
    (simp_all add: short_time_def cold_particle_def lerp_def)

lemma cold_forces:
  "forces marginal_params marginal_sim True half_random 0 (cold_particle\<lparr>temp := Fin 0.08\<rparr>)
     = (Fin (- 2), Fin (- 230), Fin 0)"
  "forces marginal_params marginal_sim False half_random 0 cold_particle
     = (Fin 0, Fin (- 250), Fin 0)"
proof -
  have r: "radial (cold_particle\<lparr>temp := Fin 0.08\<rparr>) = Fin \<bar>0.5\<bar>"
    by (rule radial_axis) (simp_all add: cold_particle_def)
  have t: "toroidal marginal_params marginal_sim True (cold_particle\<lparr>temp := Fin 0.08\<rparr>)
             = (Fin (- 2), Fin 0)"
    using r by (simp add: toroidal_def Let_def tempDiff_def halfH_def marginal_sim_def
        marginal_params_def cold_particle_def)
  have b: "snd (boiling marginal_params marginal_sim (cold_particle\<lparr>temp := Fin 0.08\<rparr>))
             = Fin (- 230)"
    by (simp add: boiling_def buoyancy_def tempDiff_def cold_particle_def marginal_sim_def
        marginal_params_def init_simState_def)
  show "forces marginal_params marginal_sim True half_random 0
          (cold_particle\<lparr>temp := Fin 0.08\<rparr>) = (Fin (- 2), Fin (- 230), Fin 0)"
    unfolding forces_def Let_def t b
    by (simp add: Math_random_def half_random_def cold_particle_def)
  show "forces marginal_params marginal_sim False half_random 0 cold_particle
          = (Fin 0, Fin (- 250), Fin 0)"
    by (simp add: forces_no_convection boiling_def buoyancy_def tempDiff_def
        marginal_constants Math_random_def half_random_def)
      (simp add: cold_particle_def marginal_sim_def marginal_params_def init_simState_def)
qed

lemma cold_phase:
  "fst (boiling marginal_params marginal_sim (cold_particle\<lparr>temp := Fin 0.08\<rparr>)) = 0"
  "fst (boiling marginal_params marginal_sim cold_particle) = 0"
  by (simp_all add: boiling_def cold_particle_def marginal_params_def)

lemma cold_update_open:
  "fst (update_particle marginal_params marginal_sim short_time True True half_random 0
          cold_particle)
     = visualization marginal_params marginal_sim True
         (cold_particle\<lparr>temp := Fin 0.08,
            vel_x := Fin (- 0.002 * 0.999),
            vel_y := Fin (- 0.23 * 0.999),
            pos_x := Fin (0.5 + - 0.002 * 0.999 * 0.00001),
            pos_y := Fin (- 0.4 + - 0.23 * 0.999 * 0.00001)\<rparr>)"
proof -
  define p3 where "p3 = cold_particle\<lparr>temp := Fin 0.08,
            vel_x := Fin (- 0.002 * 0.999),
            vel_y := Fin (- 0.23 * 0.999),
            pos_x := Fin (0.5 + - 0.002 * 0.999 * 0.00001),
            pos_y := Fin (- 0.4 + - 0.23 * 0.999 * 0.00001)\<rparr>"
  have i: "integration marginal_params marginal_sim short_time (Fin (- 2), Fin (- 230), Fin 0)
             (cold_particle\<lparr>temp := Fin 0.08, pstate := 0\<rparr>) = p3"
    by (simp add: integration_def Let_def marginal_constants cold_particle_def p3_def)
      (simp add: short_time_def clampVelocity_Fin)
  have bs: "beforeSafety marginal_params marginal_sim short_time True half_random 0 cold_particle
            = walls marginal_params (ceiling_bounce marginal_params
                (floor_bounce marginal_params marginal_sim p3))"
    unfolding beforeSafety_def Let_def cold_thermal cold_forces cold_phase i
    by (rule refl)
  have r: "radial p3 = Fin \<bar>0.5 + - 0.002 * 0.999 * 0.00001\<bar>"
    by (rule radial_axis) (simp_all add: p3_def cold_particle_def)
  have "insideContainer (Fin 0) marginal_params p3"
    unfolding insideContainer_def r
    by (simp add: marginal_constants)
      (simp add: p3_def cold_particle_def)
  then have c: "walls marginal_params (ceiling_bounce marginal_params
                  (floor_bounce marginal_params marginal_sim p3)) = p3"
    by (rule constrained_inside)
  have "\<not> blownUp p3"
    by (simp add: blownUp_def p3_def cold_particle_def)
  then have "fst (update_particle marginal_params marginal_sim short_time True True
          half_random 0 cold_particle)
     = visualization marginal_params marginal_sim True p3"
    unfolding update_particle_eq bs c by (simp add: safety_def)
  then show ?thesis
    unfolding p3_def .
qed

lemma cold_update_closed:
  "fst (update_particle marginal_params marginal_sim short_time False True half_random 0
          cold_particle)
     = visualization marginal_params marginal_sim True
         (cold_particle\<lparr>vel_y := Fin (- 0.25 * 0.999),
            pos_y := Fin (- 0.4 + - 0.25 * 0.999 * 0.00001)\<rparr>)"
proof -
  define p3 where "p3 = cold_particle\<lparr>vel_y := Fin (- 0.25 * 0.999),
            pos_y := Fin (- 0.4 + - 0.25 * 0.999 * 0.00001)\<rparr>"
  have i: "integration marginal_params marginal_sim short_time (Fin 0, Fin (- 250), Fin 0)
             (cold_particle\<lparr>pstate := 0\<rparr>) = p3"
    by (simp add: integration_def Let_def marginal_constants cold_particle_def p3_def)
      (simp add: short_time_def clampVelocity_Fin)
  have bs: "beforeSafety marginal_params marginal_sim short_time False half_random 0
              cold_particle
            = walls marginal_params (ceiling_bounce marginal_params
                (floor_bounce marginal_params marginal_sim p3))"
    unfolding beforeSafety_def Let_def cold_thermal cold_forces cold_phase i
    by (rule refl)
  have r: "radial p3 = Fin \<bar>0.5\<bar>"
    by (rule radial_axis) (simp_all add: p3_def cold_particle_def)
  have "insideContainer (Fin 0) marginal_params p3"
    unfolding insideContainer_def r
    by (simp add: marginal_constants)
      (simp add: p3_def cold_particle_def)
  then have c: "walls marginal_params (ceiling_bounce marginal_params
                  (floor_bounce marginal_params marginal_sim p3)) = p3"
    by (rule constrained_inside)
  have "\<not> blownUp p3"
    by (simp add: blownUp_def p3_def cold_particle_def)
  then have "fst (update_particle marginal_params marginal_sim short_time False True
          half_random 0 cold_particle)
     = visualization marginal_params marginal_sim True p3"
    unfolding update_particle_eq bs c by (simp add: safety_def)
  then show ?thesis
    unfolding p3_def .
qed

lemma cold_world_sim:
  "averaging (particles cold_world) (smooth marginal_params (sim cold_world)) = marginal_sim"
  by (simp add: averaging_def smooth_def frameAvgT_def sumT_def lerp_def lerpRate_def
      cold_world_def marginal_sim_def init_simState_def marginal_params_def cold_particle_def)

lemma cold_tick_open:
  "particles (tick (playing marginal_params True) short_time half_random cold_world)
     = [fst (update_particle marginal_params marginal_sim short_time True True half_random 0
               cold_particle)]"
proof -
  have p: "particles cold_world = [cold_particle]" and d: "drawn cold_world = 0"
    by (simp_all add: cold_world_def)
  have a: "params (playing marginal_params True) = marginal_params"
    "showHeatMap (playing marginal_params True) = True"
    "canConvect (computedValues (playing marginal_params True)) = True"
    by (simp_all add: playing_def canConvect_def computed_def Let_def marginal_params_def)
  have s: "sim (tick (playing marginal_params True) short_time half_random cold_world)
             = marginal_sim"
    unfolding sim_tick a by (rule cold_world_sim)
  show ?thesis
    unfolding tick_single [OF p] s a d short_time_min by (rule refl)
qed

lemma cold_tick_closed:
  "particles (tick (playing_at marginal_params (Fin 1000)) short_time half_random cold_world)
     = [fst (update_particle marginal_params marginal_sim short_time False True half_random 0
               cold_particle)]"
proof -
  have p: "particles cold_world = [cold_particle]" and d: "drawn cold_world = 0"
    by (simp_all add: cold_world_def)
  have a: "params (playing_at marginal_params (Fin 1000)) = marginal_params"
    "showHeatMap (playing_at marginal_params (Fin 1000)) = True"
    "canConvect (computedValues (playing_at marginal_params (Fin 1000))) = False"
    by (simp_all add: playing_at_def playing_def canConvect_def)
  have s: "sim (tick (playing_at marginal_params (Fin 1000)) short_time half_random cold_world)
             = marginal_sim"
    unfolding sim_tick a by (rule cold_world_sim)
  show ?thesis
    unfolding tick_single [OF p] s a d short_time_min by (rule refl)
qed

section \<open>Phase and vertical force\<close>

lemma thermalPhysics_pstate:
  "thermalPhysics ps s dt cc (p\<lparr>pstate := n\<rparr>) = (thermalPhysics ps s dt cc p)\<lparr>pstate := n\<rparr>"
  by (simp add: thermalPhysics_def bulkMixing_def cooling_def conduction_def radial_def Let_def)

lemma boiling_pstate: "boiling ps s (p\<lparr>pstate := n\<rparr>) = boiling ps s p"
  by (simp add: boiling_def buoyancy_def tempDiff_def)

lemma toroidal_pstate: "toroidal ps s cc (p\<lparr>pstate := n\<rparr>) = toroidal ps s cc p"
  by (simp add: toroidal_def tempDiff_def radial_def Let_def)

lemma forces_pstate: "forces ps s cc rnd k (p\<lparr>pstate := n\<rparr>) = forces ps s cc rnd k p"
  by (simp add: forces_def toroidal_pstate boiling_pstate)

lemma update_particle_pstate:
  "update_particle ps s dt cc shm rnd k (p\<lparr>pstate := n\<rparr>) = update_particle ps s dt cc shm rnd k p"
  by (simp add: update_particle_def Let_def thermalPhysics_pstate forces_pstate boiling_pstate)

lemma pstate_constraints [simp]:
  "pstate (walls ps p) = pstate p" "pstate (ceiling_bounce ps p) = pstate p"
  "pstate (floor_bounce ps s p) = pstate p" "pstate (integration ps s dt f p) = pstate p"
  "pstate (fst (safety ps s rnd k p)) = pstate p"
  by (simp_all add: walls_def ceiling_bounce_def floor_bounce_def integration_def safety_def
      Let_def case_prod_beta)

lemma pstate_update_particle:
  "pstate (fst (update_particle ps s dt cc shm rnd k p))
     = fst (boiling ps s (thermalPhysics ps s dt cc p))"
  by (simp add: update_particle_eq beforeSafety_def Let_def)

lemma forces_vertical:
  "fst (snd (forces ps s cc rnd k p))
     = snd (boiling ps s p) + (Math_random rnd (k + 1) - Fin 0.5) * (temp p / Fin 500 * Fin 0.05)"
  by (simp add: forces_def Let_def case_prod_beta)

text \<open>
  C6. In every frame, for every particle, with \<open>T\<close> its temperature after the thermal step
  of the frame: the update of the particle records the phase and feeds the integration the
  vertical force that the specification words give at \<open>T\<close> (the jitter added) -- gas (\<open>1\<close>) and
  \<open>gravity * 2\<close> without the buoyancy term if \<open>T\<close> exceeds the boiling point, liquid (\<open>0\<close>) and
  the buoyancy \<open>gravity * expansion * (T - avgSystemTemp) * 250\<close> otherwise; the integration
  adds this force, times the elapsed time over the inertia, to the vertical velocity; and the
  frame replaces each particle by this update of it. The phase of the previous frame plays no
  part, so a particle that has cooled below the boiling point is liquid again in the next
  frame.
\<close>

theorem phase_from_temperature:
  "update_particle ps s dt cc shm rnd k p
     = (let p1 = thermalPhysics ps s dt cc p;
            T = temp p1;
            jitter = T / Fin 500 * Fin 0.05;
            fx = fst (toroidal ps s cc p1) + (Math_random rnd k - Fin 0.5) * jitter;
            fy = snd (phaseAndLift ps s T) + (Math_random rnd (k + 1) - Fin 0.5) * jitter;
            fz = snd (toroidal ps s cc p1) + (Math_random rnd (k + 2) - Fin 0.5) * jitter;
            p3 = integration ps s dt (fx, fy, fz) (p1\<lparr>pstate := fst (phaseAndLift ps s T)\<rparr>)
        in case safety ps s rnd (k + 3) (walls ps (ceiling_bounce ps (floor_bounce ps s p3))) of
             (p5, k') \<Rightarrow> (visualization ps s shm p5, k'))
   \<and> vel_y (integration ps s dt (fx, fy, fz) q)
       = clampVelocity ((vel_y q + fy * dt / inertiaFactor ps s) * dragFactor ps s dt)
   \<and> pstate (fst (update_particle ps s dt cc shm rnd k p))
       = fst (phaseAndLift ps s (temp (thermalPhysics ps s dt cc p)))
   \<and> update_particle ps s dt cc shm rnd k (p\<lparr>pstate := n\<rparr>)
       = update_particle ps s dt cc shm rnd k p
   \<and> (i < length (particles w) \<longrightarrow>
        (\<exists>j. particles (tick props delta rnd w) ! i
           = fst (update_particle (params props) (sim (tick props delta rnd w))
                (Math_min delta (Fin 0.05)) (canConvect (computedValues props))
                (showHeatMap props) rnd j (particles w ! i))))"
proof (intro conjI impI)
  show "update_particle ps s dt cc shm rnd k p
     = (let p1 = thermalPhysics ps s dt cc p;
            T = temp p1;
            jitter = T / Fin 500 * Fin 0.05;
            fx = fst (toroidal ps s cc p1) + (Math_random rnd k - Fin 0.5) * jitter;
            fy = snd (phaseAndLift ps s T) + (Math_random rnd (k + 1) - Fin 0.5) * jitter;
            fz = snd (toroidal ps s cc p1) + (Math_random rnd (k + 2) - Fin 0.5) * jitter;
            p3 = integration ps s dt (fx, fy, fz) (p1\<lparr>pstate := fst (phaseAndLift ps s T)\<rparr>)
        in case safety ps s rnd (k + 3) (walls ps (ceiling_bounce ps (floor_bounce ps s p3))) of
             (p5, k') \<Rightarrow> (visualization ps s shm p5, k'))"
    by (simp add: update_particle_forces boiling_phaseAndLift Let_def)
  show "vel_y (integration ps s dt (fx, fy, fz) q)
       = clampVelocity ((vel_y q + fy * dt / inertiaFactor ps s) * dragFactor ps s dt)"
    by (rule integration_vel_y)
  show "pstate (fst (update_particle ps s dt cc shm rnd k p))
       = fst (phaseAndLift ps s (temp (thermalPhysics ps s dt cc p)))"
    by (simp add: pstate_update_particle boiling_phaseAndLift)
  show "update_particle ps s dt cc shm rnd k (p\<lparr>pstate := n\<rparr>)
       = update_particle ps s dt cc shm rnd k p"
    by (rule update_particle_pstate)
  show "\<exists>j. particles (tick props delta rnd w) ! i
           = fst (update_particle (params props) (sim (tick props delta rnd w))
                (Math_min delta (Fin 0.05)) (canConvect (computedValues props))
                (showHeatMap props) rnd j (particles w ! i))"
    if "i < length (particles w)"
    using that by (rule tick_nth)
qed

theorem phase_from_temperature_witness:
  "0 < length (particles hot_world)
   \<and> (\<exists>j. particles (tick (playing_at one_particle (Fin 0)) frame_time half_random hot_world) ! 0
          = fst (update_particle (params (playing_at one_particle (Fin 0)))
               (sim (tick (playing_at one_particle (Fin 0)) frame_time half_random hot_world))
               (Math_min frame_time (Fin 0.05))
               (canConvect (computedValues (playing_at one_particle (Fin 0))))
               (showHeatMap (playing_at one_particle (Fin 0))) half_random j
               (particles hot_world ! 0)))
   \<and> particles hot_world = [hot_particle]
   \<and> temp hot_particle = Fin 400 \<and> pstate hot_particle = 0 \<and> vel_y hot_particle = Fin 0
   \<and> pstate (particles (tick (playing_at one_particle (Fin 0)) frame_time half_random hot_world)
               ! 0) = 1
   \<and> vel_y (particles (tick (playing_at one_particle (Fin 0)) frame_time half_random hot_world)
              ! 0) = Fin (19.62 * 0.016 / 0.998 * (1 - 0.1002 / 0.998 * 0.016))
   \<and> pstate (fst (update_particle one_particle (init_simState one_particle) frame_time False True
                    half_random 0 hot_particle)) = 1
   \<and> particles cold_world = [cold_particle]
   \<and> temp cold_particle = Fin 0 \<and> vel_y cold_particle = Fin 0
   \<and> pstate (particles (tick (playing_at marginal_params (Fin 1000)) short_time half_random
                        cold_world) ! 0) = 0
   \<and> vel_y (particles (tick (playing_at marginal_params (Fin 1000)) short_time half_random
                       cold_world) ! 0) = Fin (- 0.25 * 0.999)
   \<and> temp (moving_particle\<lparr>pstate := 1\<rparr>) = Fin 293
   \<and> pstate (fst (update_particle one_particle (init_simState one_particle) (Fin 0) True True
                    half_random 0 (moving_particle\<lparr>pstate := 1\<rparr>))) = 0"
proof -
  have h: "0 < length (particles hot_world)" "particles hot_world = [hot_particle]"
    "particles cold_world = [cold_particle]"
    by (simp_all add: hot_world_def cold_world_def)
  have z: "temp hot_particle = Fin 400" "pstate hot_particle = 0" "vel_y hot_particle = Fin 0"
    "temp cold_particle = Fin 0" "vel_y cold_particle = Fin 0"
    "temp (moving_particle\<lparr>pstate := 1\<rparr>) = Fin 293"
    by (simp_all add: hot_particle_def moving_particle_def cold_particle_def)
  have v: "pstate (particles (tick (playing_at one_particle (Fin 0)) frame_time half_random
                     hot_world) ! 0) = 1"
    "vel_y (particles (tick (playing_at one_particle (Fin 0)) frame_time half_random hot_world)
              ! 0) = Fin (19.62 * 0.016 / 0.998 * (1 - 0.1002 / 0.998 * 0.016))"
    unfolding hot_tick nth_Cons_0 hot_update by simp_all
  have c: "pstate (particles (tick (playing_at marginal_params (Fin 1000)) short_time half_random
                        cold_world) ! 0) = 0"
    "vel_y (particles (tick (playing_at marginal_params (Fin 1000)) short_time half_random
                       cold_world) ! 0) = Fin (- 0.25 * 0.999)"
    unfolding cold_tick_closed nth_Cons_0 cold_update_closed
    by (simp_all add: cold_particle_def)
  have "thermalPhysics one_particle (init_simState one_particle) (Fin 0) True
          (moving_particle\<lparr>pstate := 1\<rparr>) = moving_particle\<lparr>pstate := 1\<rparr>"
    by (rule thermalPhysics_zero_dt)
      (simp_all add: moving_particle_def moving_facts)
  then have l: "fst (phaseAndLift one_particle (init_simState one_particle)
                  (temp (thermalPhysics one_particle (init_simState one_particle) (Fin 0) True
                       (moving_particle\<lparr>pstate := 1\<rparr>)))) = 0"
    by (simp add: phaseAndLift_def moving_particle_def one_particle_def DEFAULT_PARAMS_def)
  have g: "fst (phaseAndLift one_particle (init_simState one_particle)
                  (temp (thermalPhysics one_particle (init_simState one_particle) frame_time False
                       hot_particle))) = 1"
    unfolding hot_thermal hot_phase by simp
  note t = phase_from_temperature [where ps = one_particle and s = "init_simState one_particle"
      and dt = frame_time and cc = False and shm = True and rnd = half_random and k = 0
      and p = hot_particle and i = 0 and w = hot_world
      and props = "playing_at one_particle (Fin 0)" and delta = frame_time]
  note u = phase_from_temperature [where ps = one_particle and s = "init_simState one_particle"
      and dt = "Fin 0" and cc = True and shm = True and rnd = half_random and k = 0
      and p = "moving_particle\<lparr>pstate := 1\<rparr>"]
  note t3 = t [THEN conjunct2, THEN conjunct2, THEN conjunct1]
  note t5 = t [THEN conjunct2, THEN conjunct2, THEN conjunct2, THEN conjunct2]
  note u3 = u [THEN conjunct2, THEN conjunct2, THEN conjunct1]
  from t5 h(1)
  have "\<exists>j. particles (tick (playing_at one_particle (Fin 0)) frame_time half_random hot_world)
             ! 0
          = fst (update_particle (params (playing_at one_particle (Fin 0)))
               (sim (tick (playing_at one_particle (Fin 0)) frame_time half_random hot_world))
               (Math_min frame_time (Fin 0.05))
               (canConvect (computedValues (playing_at one_particle (Fin 0))))
               (showHeatMap (playing_at one_particle (Fin 0))) half_random j
               (particles hot_world ! 0))"
    by blast
  moreover from t3 g
  have "pstate (fst (update_particle one_particle (init_simState one_particle) frame_time False
                       True half_random 0 hot_particle)) = 1"
    by simp
  moreover from u3 l
  have "pstate (fst (update_particle one_particle (init_simState one_particle) (Fin 0) True True
                    half_random 0 (moving_particle\<lparr>pstate := 1\<rparr>))) = 0"
    by simp
  ultimately show ?thesis
    using h z v c by blast
qed

section \<open>The convection gate\<close>

lemma tick_computed:
  "canConvect cv = canConvect cv' \<Longrightarrow>
     tick (props\<lparr>computedValues := cv\<rparr>) delta rnd w = tick (props\<lparr>computedValues := cv'\<rparr>) delta rnd w"
  by (simp add: tick_def)

lemma flowRegime_computed:
  "flowRegime (computed ps)
     = (if boilingPoint ps
             \<le> tempFluidInitial ps + Math_max (Fin 0) (tempSurface ps - tempFluidInitial ps) * Fin 0.4
           \<or> boilingPoint ps < tempSurface ps
        then Boiling_Phase_Change
        else if Fin 1708 < rayleigh (computed ps)
        then (if Fin 1000000000 < rayleigh (computed ps) then Turbulent_Convection
              else Laminar_Convection)
        else Conductive)"
  by (simp add: computed_def Let_def)

lemma rayleigh_marginal:
  "rayleigh (computed marginal_params) = Fin 1500"
  "rayleigh (computed marginal_boiling_params) = Fin 1500"
  by (simp_all add: computed_def Let_def marginal_params_def marginal_boiling_params_def)

lemma toroidal_closed [simp]: "toroidal ps s False p = (Fin 0, Fin 0)"
  by (simp add: toroidal_def)

lemma update_particle_gate:
  "update_particle ps s dt cc shm rnd k p
     = (let p0 = cooling ps s dt (conduction ps s dt p);
            p1 = (if cc
                  then p0\<lparr>temp := lerp (temp p0) (s_avgSystemTemp s)
                                     (thermalRate s * Fin 0.1 * dt)\<rparr>
                  else p0);
            (tx, tz) = (if cc then toroidal ps s True p1 else (Fin 0, Fin 0));
            jitter = temp p1 / Fin 500 * Fin 0.05;
            fx = tx + (Math_random rnd k - Fin 0.5) * jitter;
            fy = snd (boiling ps s p1) + (Math_random rnd (k + 1) - Fin 0.5) * jitter;
            fz = tz + (Math_random rnd (k + 2) - Fin 0.5) * jitter;
            p3 = integration ps s dt (fx, fy, fz) (p1\<lparr>pstate := fst (boiling ps s p1)\<rparr>)
        in case safety ps s rnd (k + 3) (walls ps (ceiling_bounce ps (floor_bounce ps s p3))) of
             (p5, k') \<Rightarrow> (visualization ps s shm p5, k'))"
  by (cases cc)
    (simp_all add: update_particle_forces thermalPhysics_def bulkMixing_def Let_def
      case_prod_beta)

lemma tick_gate:
  assumes "i < length (particles w)"
  shows "\<exists>j. particles (tick props delta rnd w) ! i
           = fst (update_particle (params props) (sim (tick props delta rnd w))
                (Math_min delta (Fin 0.05)) (Fin 1000 < rayleigh (computedValues props))
                (showHeatMap props) rnd j (particles w ! i))"
  using tick_nth [OF assms, of props delta rnd] by (simp add: canConvect_def)

text \<open>
  C9, as amended. The convection-gated effects are applied exactly when
  \<open>computed.rayleigh > 1000\<close>. The frame replaces each particle by its update, made with the
  outcome of this very test as the convection flag; the update with the flag set makes the
  bulk mixing step of the temperature towards the running average and uses the toroidal
  force, and the update with the flag clear leaves the temperature to conduction and cooling
  and uses a horizontal force of zero (the jitter apart); the frame depends on the derived
  quantities through this test only. The derived-quantity calculator reports a convective
  regime only above \<open>1708\<close>, so for a Rayleigh number in \<open>(1000, 1708]\<close> the integrator
  convects while the regime reported is \<open>Conductive\<close>, unless the boiling check of the
  calculator fires, in which case the regime reported is \<open>Boiling / Phase Change\<close>.
\<close>

theorem convection_gate:
  "(i < length (particles w) \<longrightarrow>
      (\<exists>j. particles (tick props delta rnd w) ! i
         = fst (update_particle (params props) (sim (tick props delta rnd w))
              (Math_min delta (Fin 0.05)) (Fin 1000 < rayleigh (computedValues props))
              (showHeatMap props) rnd j (particles w ! i))))
   \<and> update_particle ps s dt cc shm rnd k p
     = (let p0 = cooling ps s dt (conduction ps s dt p);
            p1 = (if cc
                  then p0\<lparr>temp := lerp (temp p0) (s_avgSystemTemp s)
                                     (thermalRate s * Fin 0.1 * dt)\<rparr>
                  else p0);
            (tx, tz) = (if cc then toroidal ps s True p1 else (Fin 0, Fin 0));
            jitter = temp p1 / Fin 500 * Fin 0.05;
            fx = tx + (Math_random rnd k - Fin 0.5) * jitter;
            fy = snd (boiling ps s p1) + (Math_random rnd (k + 1) - Fin 0.5) * jitter;
            fz = tz + (Math_random rnd (k + 2) - Fin 0.5) * jitter;
            p3 = integration ps s dt (fx, fy, fz) (p1\<lparr>pstate := fst (boiling ps s p1)\<rparr>)
        in case safety ps s rnd (k + 3) (walls ps (ceiling_bounce ps (floor_bounce ps s p3))) of
             (p5, k') \<Rightarrow> (visualization ps s shm p5, k'))
   \<and> (canConvect cv \<longleftrightarrow> Fin 1000 < rayleigh cv)
   \<and> (canConvect cv = canConvect cv' \<longrightarrow>
        tick (props\<lparr>computedValues := cv\<rparr>) delta rnd w
          = tick (props\<lparr>computedValues := cv'\<rparr>) delta rnd w)
   \<and> (Fin 1000 < rayleigh (computed ps) \<and> rayleigh (computed ps) \<le> Fin 1708 \<longrightarrow>
        canConvect (computed ps)
        \<and> flowRegime (computed ps)
            = (if boilingPoint ps
                    \<le> tempFluidInitial ps
                        + Math_max (Fin 0) (tempSurface ps - tempFluidInitial ps) * Fin 0.4
                  \<or> boilingPoint ps < tempSurface ps
               then Boiling_Phase_Change else Conductive))"
proof (intro conjI impI)
  show "\<exists>j. particles (tick props delta rnd w) ! i
         = fst (update_particle (params props) (sim (tick props delta rnd w))
              (Math_min delta (Fin 0.05)) (Fin 1000 < rayleigh (computedValues props))
              (showHeatMap props) rnd j (particles w ! i))"
    if "i < length (particles w)"
    using that by (rule tick_gate)
  show "update_particle ps s dt cc shm rnd k p
     = (let p0 = cooling ps s dt (conduction ps s dt p);
            p1 = (if cc
                  then p0\<lparr>temp := lerp (temp p0) (s_avgSystemTemp s)
                                     (thermalRate s * Fin 0.1 * dt)\<rparr>
                  else p0);
            (tx, tz) = (if cc then toroidal ps s True p1 else (Fin 0, Fin 0));
            jitter = temp p1 / Fin 500 * Fin 0.05;
            fx = tx + (Math_random rnd k - Fin 0.5) * jitter;
            fy = snd (boiling ps s p1) + (Math_random rnd (k + 1) - Fin 0.5) * jitter;
            fz = tz + (Math_random rnd (k + 2) - Fin 0.5) * jitter;
            p3 = integration ps s dt (fx, fy, fz) (p1\<lparr>pstate := fst (boiling ps s p1)\<rparr>)
        in case safety ps s rnd (k + 3) (walls ps (ceiling_bounce ps (floor_bounce ps s p3))) of
             (p5, k') \<Rightarrow> (visualization ps s shm p5, k'))"
    by (rule update_particle_gate)
  show "canConvect cv \<longleftrightarrow> Fin 1000 < rayleigh cv"
    by (simp add: canConvect_def)
  show "tick (props\<lparr>computedValues := cv\<rparr>) delta rnd w
          = tick (props\<lparr>computedValues := cv'\<rparr>) delta rnd w"
    if "canConvect cv = canConvect cv'"
    using that by (rule tick_computed)
  assume r: "Fin 1000 < rayleigh (computed ps) \<and> rayleigh (computed ps) \<le> Fin 1708"
  then show "canConvect (computed ps)"
    by (simp add: canConvect_def)
  from r have "\<not> Fin 1708 < rayleigh (computed ps)"
    by (simp add: fl_le_not_less)
  then show "flowRegime (computed ps)
            = (if boilingPoint ps
                    \<le> tempFluidInitial ps
                        + Math_max (Fin 0) (tempSurface ps - tempFluidInitial ps) * Fin 0.4
                  \<or> boilingPoint ps < tempSurface ps
               then Boiling_Phase_Change else Conductive)"
    by (simp add: flowRegime_computed)
qed

theorem convection_gate_witness:
  "0 < length (particles cold_world)
   \<and> (\<exists>j. particles (tick (playing marginal_params True) short_time half_random cold_world) ! 0
          = fst (update_particle (params (playing marginal_params True))
               (sim (tick (playing marginal_params True) short_time half_random cold_world))
               (Math_min short_time (Fin 0.05))
               (Fin 1000 < rayleigh (computedValues (playing marginal_params True)))
               (showHeatMap (playing marginal_params True)) half_random j
               (particles cold_world ! 0)))
   \<and> Fin 1000 < rayleigh (computed marginal_params)
   \<and> rayleigh (computed marginal_params) \<le> Fin 1708
   \<and> canConvect (computed marginal_params)
   \<and> flowRegime (computed marginal_params) = Conductive
   \<and> temp cold_particle = Fin 0 \<and> vel_x cold_particle = Fin 0
   \<and> temp (particles (tick (playing marginal_params True) short_time half_random cold_world)
             ! 0) = Fin 0.08
   \<and> vel_x (particles (tick (playing marginal_params True) short_time half_random cold_world)
              ! 0) = Fin (- 0.002 * 0.999)
   \<and> rayleigh (computedValues (playing_at marginal_params (Fin 1000))) = Fin 1000
   \<and> temp (particles (tick (playing_at marginal_params (Fin 1000)) short_time half_random
                      cold_world) ! 0) = Fin 0
   \<and> vel_x (particles (tick (playing_at marginal_params (Fin 1000)) short_time half_random
                       cold_world) ! 0) = Fin 0"
proof -
  have l: "0 < length (particles cold_world)"
    by (simp add: cold_world_def)
  have h: "Fin 1000 < rayleigh (computed marginal_params)
           \<and> rayleigh (computed marginal_params) \<le> Fin 1708"
    by (simp add: rayleigh_marginal)
  have b: "\<not> (boilingPoint marginal_params
                \<le> tempFluidInitial marginal_params
                    + Math_max (Fin 0) (tempSurface marginal_params
                        - tempFluidInitial marginal_params) * Fin 0.4
              \<or> boilingPoint marginal_params < tempSurface marginal_params)"
    by (simp add: marginal_params_def)
  have z: "temp cold_particle = Fin 0" "vel_x cold_particle = Fin 0"
    by (simp_all add: cold_particle_def)
  have r: "rayleigh (computedValues (playing_at marginal_params (Fin 1000))) = Fin 1000"
    by (simp add: playing_at_def)
  have op: "temp (particles (tick (playing marginal_params True) short_time half_random
                      cold_world) ! 0) = Fin 0.08"
    "vel_x (particles (tick (playing marginal_params True) short_time half_random cold_world)
              ! 0) = Fin (- 0.002 * 0.999)"
    unfolding cold_tick_open nth_Cons_0 cold_update_open by simp_all
  have cl: "temp (particles (tick (playing_at marginal_params (Fin 1000)) short_time half_random
                      cold_world) ! 0) = Fin 0"
    "vel_x (particles (tick (playing_at marginal_params (Fin 1000)) short_time half_random
                       cold_world) ! 0) = Fin 0"
    unfolding cold_tick_closed nth_Cons_0 cold_update_closed
    by (simp_all add: cold_particle_def)
  note g = convection_gate [where i = 0 and w = cold_world
      and props = "playing marginal_params True" and delta = short_time and rnd = half_random
      and ps = marginal_params]
  note g1 = g [THEN conjunct1]
  note g5 = g [THEN conjunct2, THEN conjunct2, THEN conjunct2, THEN conjunct2]
  from g1 l
  have "\<exists>j. particles (tick (playing marginal_params True) short_time half_random cold_world) ! 0
          = fst (update_particle (params (playing marginal_params True))
               (sim (tick (playing marginal_params True) short_time half_random cold_world))
               (Math_min short_time (Fin 0.05))
               (Fin 1000 < rayleigh (computedValues (playing marginal_params True)))
               (showHeatMap (playing marginal_params True)) half_random j
               (particles cold_world ! 0))"
    by blast
  moreover from g5 h b have "canConvect (computed marginal_params)"
    "flowRegime (computed marginal_params) = Conductive"
    by simp_all
  ultimately show ?thesis
    using l h z r op cl by blast
qed

text \<open>
  C9 as stated fails when the surface is hotter than the boiling point: the Rayleigh number
  is \<open>1500\<close>, the integrator convects, and the regime reported is \<open>Boiling / Phase Change\<close>,
  not \<open>Conductive\<close>.
\<close>

theorem marginal_boiling_regime:
  "Fin 1000 < rayleigh (computed marginal_boiling_params)
   \<and> rayleigh (computed marginal_boiling_params) \<le> Fin 1708
   \<and> canConvect (computed marginal_boiling_params)
   \<and> flowRegime (computed marginal_boiling_params) = Boiling_Phase_Change
   \<and> flowRegime (computed marginal_boiling_params) \<noteq> Conductive"
proof -
  have "flowRegime (computed marginal_boiling_params) = Boiling_Phase_Change"
    by (simp add: flowRegime_computed marginal_boiling_params_def marginal_params_def)
  then show ?thesis
    by (simp add: rayleigh_marginal canConvect_def)
qed

section \<open>The safety reset\<close>

lemma thermalPhysics_kinematics [simp]:
  "pos_x (thermalPhysics ps s dt cc p) = pos_x p"
  "pos_y (thermalPhysics ps s dt cc p) = pos_y p"
  "pos_z (thermalPhysics ps s dt cc p) = pos_z p"
  "vel_x (thermalPhysics ps s dt cc p) = vel_x p"
  "vel_y (thermalPhysics ps s dt cc p) = vel_y p"
  "vel_z (thermalPhysics ps s dt cc p) = vel_z p"
  by (simp_all add: thermalPhysics_def bulkMixing_def cooling_def conduction_def Let_def)


lemma walls_NaN:
  "pos_x p = NaN \<or> pos_z p = NaN \<Longrightarrow> walls ps p = p"
  using radial_NaN [of p] by (simp add: walls_def Let_def)

lemma constrained_NaN:
  assumes "pos_x p = NaN \<or> pos_y p = NaN \<or> pos_z p = NaN"
  shows "blownUp (walls ps (ceiling_bounce ps (floor_bounce ps s p)))"
proof -
  define p' where "p' = ceiling_bounce ps (floor_bounce ps s p)"
  have h: "pos_x p' = pos_x p" "pos_z p' = pos_z p"
    using floor_ceiling_horizontal [OF p'_def] by simp_all
  have y: "pos_y p = NaN \<Longrightarrow> pos_y p' = NaN"
    by (simp add: p'_def ceiling_bounce_def floor_bounce_def)
  show ?thesis
  proof (cases "pos_x p = NaN \<or> pos_z p = NaN")
    case True
    then have "walls ps p' = p'"
      using h by (intro walls_NaN) simp
    with True h show ?thesis
      by (auto simp: blownUp_def p'_def [symmetric])
  next
    case False
    with assms have "pos_y (walls ps p') = NaN"
      using y by (simp add: walls_vertical)
    then show ?thesis
      by (simp add: blownUp_def p'_def [symmetric])
  qed
qed











section \<open>Colours\<close>

lemma tNorm_unit:
  assumes "temp p \<noteq> NaN" and "isFinite (s_tempSurface s)" and "isFinite (s_tempFluidInitial s)"
  shows "\<exists>t. tNorm s p = Fin t \<and> 0 \<le> t \<and> t \<le> 1"
proof -
  obtain a b where ab: "s_tempSurface s = Fin b" "s_tempFluidInitial s = Fin a"
    using assms by (auto simp: isFinite_iff)
  define m where "m = max 1 (b - a)"
  have m: "1 \<le> m" by (simp add: m_def)
  have d: "Math_max (Fin 1) (s_tempSurface s - s_tempFluidInitial s) = Fin m"
    by (simp add: ab m_def)
  show ?thesis
  proof (cases "temp p")
    case (Fin T)
    then show ?thesis
      using m d ab by (simp add: tNorm_def)
  next
    case PInf
    then show ?thesis
      using m d ab by (simp add: tNorm_def minus_fl_def Math_min_def Math_max_def)
  next
    case NInf
    then show ?thesis
      using m d ab by (simp add: tNorm_def minus_fl_def Math_min_def Math_max_def)
  next
    case NaN
    with assms show ?thesis by simp
  qed
qed

lemma heatMapColor_unit:
  assumes "0 \<le> t" and "t \<le> 1"
  shows "unitColor (heatMapColor (Fin t))"
  using assms
  by (simp add: heatMapColor_def unitColor_def lerpColors_def cBlue_def cCyan_def cGreen_def
      cYellow_def cRed_def) argo

lemma times_self_cases:
  "a \<noteq> NaN \<Longrightarrow> a * a = PInf \<or> (\<exists>r. a * a = Fin r \<and> 0 \<le> r)"
  by (cases a) (auto simp: inf_of_sign_def)

lemma plus_nonneg_cases:
  assumes "a = PInf \<or> (\<exists>r. a = Fin r \<and> 0 \<le> r)" and "b = PInf \<or> (\<exists>r. b = Fin r \<and> 0 \<le> r)"
  shows "a + b = PInf \<or> (\<exists>r. a + b = Fin r \<and> 0 \<le> r)"
  using assms by auto

lemma bright_unit:
  assumes "vel_x p \<noteq> NaN" and "vel_y p \<noteq> NaN" and "vel_z p \<noteq> NaN"
  shows "\<exists>b. Math_min (Fin 1)
               (Math_sqrt (vel_x p * vel_x p + vel_y p * vel_y p + vel_z p * vel_z p) * Fin 2)
             = Fin b \<and> 0 \<le> b \<and> b \<le> 1"
proof -
  define q where "q = vel_x p * vel_x p + vel_y p * vel_y p + vel_z p * vel_z p"
  have "q = PInf \<or> (\<exists>r. q = Fin r \<and> 0 \<le> r)"
    unfolding q_def using assms by (intro plus_nonneg_cases times_self_cases)
  then have "Math_sqrt q = PInf \<or> (\<exists>r. Math_sqrt q = Fin r \<and> 0 \<le> r)"
    by auto
  then have "\<exists>b. Math_min (Fin 1) (Math_sqrt q * Fin 2) = Fin b \<and> 0 \<le> b \<and> b \<le> 1"
    by (auto simp: inf_of_sign_def Math_min_def)
  then show ?thesis by (simp add: q_def)
qed

lemma wateryColor_unit:
  assumes "vel_x p \<noteq> NaN" and "vel_y p \<noteq> NaN" and "vel_z p \<noteq> NaN"
  shows "unitColor (wateryColor ps s p)"
proof -
  obtain b where "Math_min (Fin 1)
               (Math_sqrt (vel_x p * vel_x p + vel_y p * vel_y p + vel_z p * vel_z p) * Fin 2)
             = Fin b" "0 \<le> b" "b \<le> 1"
    using bright_unit [OF assms] by blast
  then show ?thesis
    by (simp add: wateryColor_def Let_def unitColor_def Color_lerp_def cGlow_def) argo
qed

lemma particleColor_unit:
  assumes "temp p \<noteq> NaN" and "vel_x p \<noteq> NaN" and "vel_y p \<noteq> NaN" and "vel_z p \<noteq> NaN"
    and "isFinite (s_tempSurface s)" and "isFinite (s_tempFluidInitial s)"
  shows "unitColor (particleColor ps s shm p)"
proof -
  obtain t where "tNorm s p = Fin t" "0 \<le> t" "t \<le> 1"
    using tNorm_unit [OF assms(1,5,6)] by blast
  then have "unitColor (heatMapColor (tNorm s p))"
    by (simp add: heatMapColor_unit)
  moreover have "unitColor cGas" "unitColor cGlow"
    by (simp_all add: unitColor_def cGas_def cGlow_def)
  ultimately show ?thesis
    using wateryColor_unit [OF assms(2-4)] by (simp add: particleColor_def)
qed

lemma visualization_color:
  "(col_r (visualization ps s shm p), col_g (visualization ps s shm p),
    col_b (visualization ps s shm p)) = particleColor ps s shm p"
  by (simp add: visualization_def split: prod.split)

lemma clampVelocity_NaN [simp]: "clampVelocity NaN = NaN"
  by (simp add: clampVelocity_def)

lemma forces_NaN:
  assumes "temp p = NaN"
  shows "fst (snd (forces ps s cc rnd k p)) = NaN"
  using assms by (simp add: forces_vertical boiling_def buoyancy_def tempDiff_def)

lemma integration_force_NaN:
  assumes "fst (snd f) = NaN"
  shows "pos_y (integration ps s dt f p) = NaN"
  using assms by (cases f) (simp add: integration_def Let_def)

lemma integration_temp [simp]: "temp (integration ps s dt f p) = temp p"
  by (simp add: integration_def Let_def case_prod_beta)

lemma lerp_not_NaN:
  "a \<noteq> NaN \<Longrightarrow> t < 1 \<Longrightarrow> lerp a (Fin b) (Fin t) \<noteq> NaN"
  by (cases a) (simp_all add: lerp_def inf_of_sign_def)

lemma beforeSafety_temp_not_NaN:
  assumes "\<not> blownUp (beforeSafety ps s dt cc rnd k p)" and "isFinite (s_tempSurface s)"
  shows "temp (beforeSafety ps s dt cc rnd k p) \<noteq> NaN"
proof -
  define p1 where "p1 = thermalPhysics ps s dt cc p"
  define p3 where "p3 = integration ps s dt (forces ps s cc rnd k p1)
                          (p1\<lparr>pstate := fst (boiling ps s p1)\<rparr>)"
  have bs: "beforeSafety ps s dt cc rnd k p = walls ps (ceiling_bounce ps (floor_bounce ps s p3))"
    by (simp add: beforeSafety_def Let_def p1_def p3_def)
  have "temp p1 \<noteq> NaN"
  proof
    assume "temp p1 = NaN"
    then have "pos_y p3 = NaN"
      unfolding p3_def by (intro integration_force_NaN forces_NaN)
    then have "blownUp (walls ps (ceiling_bounce ps (floor_bounce ps s p3)))"
      by (intro constrained_NaN) simp
    with assms(1) bs show False by simp
  qed
  then have "temp p3 \<noteq> NaN"
    by (simp add: p3_def)
  moreover obtain b where "s_tempSurface s = Fin b"
    using assms(2) by (auto simp: isFinite_iff)
  ultimately show ?thesis
    by (simp add: bs constrained_temp lerp_not_NaN)
qed

lemma update_particle_color:
  assumes R: "containerRadius ps = Fin R" "0 < R"
    and H: "containerHeight ps = Fin H" "0 < H"
    and rnd: "random_ok rnd"
    and fin: "isFinite (s_tempSurface s)" "isFinite (s_tempFluidInitial s)"
    and q: "q = fst (update_particle ps s dt cc shm rnd k p)"
  shows "unitColor (col_r q, col_g q, col_b q)"
proof -
  define p5 where "p5 = fst (safety ps s rnd (k + 3) (beforeSafety ps s dt cc rnd k p))"
  have q5: "q = visualization ps s shm p5"
    by (simp add: q update_particle_eq p5_def)
  have "stable ps q"
    unfolding q using R H rnd by (rule update_particle_stable)
  then have "velocityBounded p5"
    by (simp add: q5 stable_def velocityBounded_def)
  then have v: "vel_x p5 \<noteq> NaN" "vel_y p5 \<noteq> NaN" "vel_z p5 \<noteq> NaN"
    by (auto simp: velocityBounded_def)
  have t: "temp p5 \<noteq> NaN"
  proof (cases "blownUp (beforeSafety ps s dt cc rnd k p)")
    case True
    then have "temp p5 = s_tempFluidInitial s"
      by (simp add: p5_def safety_def Let_def)
    with fin(2) show ?thesis
      by (auto simp: isFinite_iff)
  next
    case False
    then have "p5 = beforeSafety ps s dt cc rnd k p"
      by (simp add: p5_def safety_def)
    with False fin(1) show ?thesis
      by (simp add: beforeSafety_temp_not_NaN)
  qed
  show ?thesis
    unfolding q5 visualization_color using t v fin by (rule particleColor_unit)
qed

lemma particle_loop_set:
  "q \<in> set (fst (particle_loop ps s dt cc shm rnd k parts)) \<Longrightarrow>
     \<exists>j p. q = fst (update_particle ps s dt cc shm rnd j p)"
proof (induction parts arbitrary: k)
  case Nil
  then show ?case by simp
next
  case (Cons p rest)
  then show ?case
    by (auto simp: case_prod_beta)
qed

lemma nan_ambient_heat_map:
  assumes "s_tempFluidInitial s = NaN" and "pstate p \<noteq> 1"
  shows "particleColor ps s True p = (NaN, NaN, NaN)"
proof -
  have "tNorm s p = NaN"
    using assms(1) by (simp add: tNorm_def)
  then show ?thesis
    using assms
    by (simp add: particleColor_def isConducting_def heatMapColor_def lerpColors_def cYellow_def
        cRed_def)
qed

lemma cleared_rayleigh: "rayleigh (computed cleared_params) = NaN"
  by (simp add: computed_def Let_def cleared_params_def one_particle_def DEFAULT_PARAMS_def)

lemma cleared_thermal:
  "thermalPhysics cleared_params s dt False moving_particle = moving_particle"
proof -
  have "radial moving_particle = Fin \<bar>0\<bar>"
    by (rule radial_axis) (simp_all add: moving_particle_def)
  then show ?thesis
    by (simp add: thermalPhysics_def bulkMixing_def cooling_def conduction_def Let_def halfH_def
        cleared_params_def one_particle_def DEFAULT_PARAMS_def moving_particle_def)
qed

text \<open>
  C8, as amended. With finite smoothed surface and initial fluid temperatures, the colour derivation
  yields channels in \<open>[0, 1]\<close> in all of its branches (gas, heat map with or without the glow,
  watery look with or without the glow) for every particle whose temperature and velocity
  components are numbers, however large (infinities included; \<open>NaN\<close> is not a number). In a
  container of positive radius and height this is the case of every particle at the end of a
  frame, whatever its previous state: every colour written by a frame has its channels in
  \<open>[0, 1]\<close>.
\<close>

theorem colours_in_unit_range:
  assumes "isFinite (s_tempSurface s)" and "isFinite (s_tempFluidInitial s)"
  shows "(temp p \<noteq> NaN \<and> vel_x p \<noteq> NaN \<and> vel_y p \<noteq> NaN \<and> vel_z p \<noteq> NaN \<longrightarrow>
            unitColor (particleColor ps s shm p)
            \<and> (col_r (visualization ps s shm p), col_g (visualization ps s shm p),
                col_b (visualization ps s shm p)) = particleColor ps s shm p)
       \<and> (s = sim (tick props delta rnd w)
            \<and> containerRadius (params props) = Fin R \<and> 0 < R
            \<and> containerHeight (params props) = Fin H \<and> 0 < H \<and> random_ok rnd \<longrightarrow>
            (\<forall>q \<in> set (particles (tick props delta rnd w)). unitColor (col_r q, col_g q, col_b q)))"
proof (intro conjI impI ballI)
  assume "temp p \<noteq> NaN \<and> vel_x p \<noteq> NaN \<and> vel_y p \<noteq> NaN \<and> vel_z p \<noteq> NaN"
  then show "unitColor (particleColor ps s shm p)"
    using assms by (simp add: particleColor_unit)
  show "(col_r (visualization ps s shm p), col_g (visualization ps s shm p),
         col_b (visualization ps s shm p)) = particleColor ps s shm p"
    by (rule visualization_color)
next
  fix q
  assume a: "s = sim (tick props delta rnd w)
            \<and> containerRadius (params props) = Fin R \<and> 0 < R
            \<and> containerHeight (params props) = Fin H \<and> 0 < H \<and> random_ok rnd"
    and q: "q \<in> set (particles (tick props delta rnd w))"
  from q obtain j p0 where "q = fst (update_particle (params props) s
      (Math_min delta (Fin 0.05)) (canConvect (computedValues props)) (showHeatMap props)
      rnd j p0)"
    using a particle_loop_set by (simp add: particles_tick sim_tick) blast
  with a assms show "unitColor (col_r q, col_g q, col_b q)"
    by (intro update_particle_color [of "params props" R H rnd s q]) simp_all
qed

theorem colours_in_unit_range_witness:
  "isFinite (s_tempSurface (init_simState one_particle))
   \<and> isFinite (s_tempFluidInitial (init_simState one_particle))
   \<and> temp moving_particle \<noteq> NaN \<and> vel_x moving_particle \<noteq> NaN
   \<and> vel_y moving_particle \<noteq> NaN \<and> vel_z moving_particle \<noteq> NaN
   \<and> unitColor (particleColor one_particle (init_simState one_particle) False moving_particle)
   \<and> particleColor one_particle (init_simState one_particle) True moving_particle = cBlue"
proof -
  have h: "isFinite (s_tempSurface (init_simState one_particle))"
    "isFinite (s_tempFluidInitial (init_simState one_particle))"
    by (simp_all add: init_simState_def one_particle_def DEFAULT_PARAMS_def)
  have n: "temp moving_particle \<noteq> NaN \<and> vel_x moving_particle \<noteq> NaN
           \<and> vel_y moving_particle \<noteq> NaN \<and> vel_z moving_particle \<noteq> NaN"
    by (simp add: moving_particle_def)
  have "tNorm (init_simState one_particle) moving_particle = Fin 0"
    by (simp add: tNorm_def moving_particle_def init_simState_def one_particle_def
        DEFAULT_PARAMS_def)
  then have b: "particleColor one_particle (init_simState one_particle) True moving_particle
                  = cBlue"
    by (simp add: particleColor_def isConducting_def heatMapColor_def lerpColors_def cBlue_def
        cCyan_def moving_particle_def halfH_def one_particle_def DEFAULT_PARAMS_def)
  from colours_in_unit_range [OF h, of moving_particle one_particle False] h n b
  show ?thesis by blast
qed

text \<open>
  C8 as stated fails for smoothed temperatures that are not finite. After the number box of
  the initial fluid temperature was cleared, the first frame smooths the initial fluid
  temperature of the state, \<open>293\<close>, towards \<open>NaN\<close>, which gives \<open>NaN\<close>; the normalised
  temperature of the particle is then \<open>NaN\<close>, every comparison of the gradient fails, and the
  interpolation between yellow and red writes \<open>NaN\<close> to every channel of the colour. The same
  happens in the colour derivation alone for a smoothed initial fluid temperature of \<open>NaN\<close>,
  and for a smoothed surface and initial fluid temperature that are both \<open>Infinity\<close>.
\<close>

theorem nan_ambient_colour:
  "tempFluidInitial cleared_params = NaN
   \<and> s_tempFluidInitial (sim moving_world) = Fin 293
   \<and> particles moving_world = [moving_particle]
   \<and> s_tempFluidInitial
        (sim (tick (playing cleared_params True) frame_time half_random moving_world)) = NaN
   \<and> col_r (particles (tick (playing cleared_params True) frame_time half_random moving_world)
              ! 0) = NaN
   \<and> \<not> unitColor
         (col_r (particles (tick (playing cleared_params True) frame_time half_random
                     moving_world) ! 0),
          col_g (particles (tick (playing cleared_params True) frame_time half_random
                     moving_world) ! 0),
          col_b (particles (tick (playing cleared_params True) frame_time half_random
                     moving_world) ! 0))
   \<and> s_tempFluidInitial nan_ambient = NaN
   \<and> temp moving_particle = Fin 293
   \<and> particleColor one_particle nan_ambient True moving_particle = (NaN, NaN, NaN)
   \<and> \<not> unitColor (particleColor one_particle nan_ambient True moving_particle)
   \<and> s_tempSurface unbounded_ambient = PInf
   \<and> s_tempFluidInitial unbounded_ambient = PInf
   \<and> particleColor one_particle unbounded_ambient True moving_particle = (NaN, NaN, NaN)"
proof -
  define w' where "w' = tick (playing cleared_params True) frame_time half_random moving_world"
  define q where "q = particles w' ! 0"
  have a: "tempFluidInitial cleared_params = NaN"
    by (simp add: cleared_params_def)
  have b: "s_tempFluidInitial (sim moving_world) = Fin 293"
    by (simp add: moving_facts init_simState_def one_particle_def DEFAULT_PARAMS_def)
  have s: "s_tempFluidInitial (sim w') = NaN"
    by (simp add: w'_def sim_tick averaging_def smooth_def lerp_def playing_def a)
  have cc: "canConvect (computedValues (playing cleared_params True)) = False"
    by (simp add: playing_def canConvect_def cleared_rayleigh)
  have "particles w'
          = [fst (update_particle (params (playing cleared_params True)) (sim w')
                (Math_min frame_time (Fin 0.05))
                (canConvect (computedValues (playing cleared_params True)))
                (showHeatMap (playing cleared_params True)) half_random (drawn moving_world)
                moving_particle)]"
    unfolding w'_def by (rule tick_single) (simp add: moving_facts)
  then have q: "q = fst (update_particle (params (playing cleared_params True)) (sim w')
                (Math_min frame_time (Fin 0.05)) False True half_random (drawn moving_world)
                moving_particle)"
    unfolding cc by (simp add: q_def playing_def)
  have "pstate q = fst (boiling (params (playing cleared_params True)) (sim w') moving_particle)"
    unfolding q pstate_update_particle by (simp add: playing_def cleared_thermal)
  then have p: "pstate q = 0"
    by (simp add: boiling_def playing_def cleared_params_def one_particle_def DEFAULT_PARAMS_def
        moving_particle_def)
  obtain p5 where q5: "q = visualization (params (playing cleared_params True)) (sim w') True p5"
    unfolding q update_particle_eq by simp
  with p have "pstate p5 \<noteq> 1"
    by simp
  with s have "particleColor (params (playing cleared_params True)) (sim w') True p5
                 = (NaN, NaN, NaN)"
    by (rule nan_ambient_heat_map)
  then have c: "(col_r q, col_g q, col_b q) = (NaN, NaN, NaN)"
    unfolding q5 visualization_color .
  then have c1: "col_r q = NaN"
    by simp
  have c2: "\<not> unitColor (col_r q, col_g q, col_b q)"
    unfolding c by (simp add: unitColor_def)
  have n: "s_tempFluidInitial nan_ambient = NaN"
    by (simp add: nan_ambient_def)
  have t: "temp moving_particle = Fin 293"
    by (simp add: moving_particle_def)
  have "pstate moving_particle \<noteq> 1"
    by (simp add: moving_particle_def)
  with n have d: "particleColor one_particle nan_ambient True moving_particle = (NaN, NaN, NaN)"
    by (rule nan_ambient_heat_map)
  have d2: "\<not> unitColor (particleColor one_particle nan_ambient True moving_particle)"
    unfolding d by (simp add: unitColor_def)
  have u: "s_tempSurface unbounded_ambient = PInf" "s_tempFluidInitial unbounded_ambient = PInf"
    by (simp_all add: unbounded_ambient_def)
  have "tNorm unbounded_ambient moving_particle = NaN"
    by (simp add: tNorm_def u moving_particle_def minus_fl_def Math_min_def Math_max_def)
  then have e: "particleColor one_particle unbounded_ambient True moving_particle
                  = (NaN, NaN, NaN)"
    by (simp add: particleColor_def isConducting_def heatMapColor_def lerpColors_def cYellow_def
        cRed_def moving_particle_def u)
  show ?thesis
    using a b s c1 c2 n t d d2 u e
    unfolding q_def w'_def by (simp add: moving_facts)
qed

section \<open>The example scenario\<close>

lemma lerp_same [simp]: "lerp (Fin a) (Fin a) (Fin t) = Fin a"
  by (simp add: algebra_simps)

lemma smooth_init:
  "finite_params ps \<Longrightarrow> smooth ps (init_simState ps) = init_simState ps"
  by (auto simp: finite_params_def isFinite_iff smooth_def init_simState_def lerpRate_def)

lemma foldl_same_temp:
  "\<forall>p \<in> set parts. temp p = Fin T \<Longrightarrow>
     foldl (\<lambda>a p. a + temp p) (Fin a) parts = Fin (a + T * real (length parts))"
  by (induction parts arbitrary: a) (simp_all add: algebra_simps)

lemma frameAvgT_same_temp:
  assumes "\<forall>p \<in> set parts. temp p = Fin T" and "parts \<noteq> []"
  shows "frameAvgT parts = Fin T"
  using foldl_same_temp [OF assms(1), of 0] assms(2) by (simp add: frameAvgT_def sumT_def)

lemma three_constants:
  "inertiaFactor three_particles (init_simState three_particles) = Fin 0.998"
  "dragFactor three_particles (init_simState three_particles) frame_time
     = Fin (1 - 0.1002 / 0.998 * 0.016)"
  "thermalRate (init_simState three_particles) = Fin 0.01144"
  "halfH three_particles = Fin 0.1"
  "containerRadius three_particles = Fin 0.1"
  "containerHeight three_particles = Fin 0.2"
  "boilingPoint three_particles = Fin 373.15"
  "s_tempSurface (init_simState three_particles) = Fin 350"
  "s_tempFluidInitial (init_simState three_particles) = Fin 293"
  "s_avgSystemTemp (init_simState three_particles) = Fin 293"
  "s_gravity (init_simState three_particles) = Fin 9.81"
  "s_expansion (init_simState three_particles) = Fin 0.000207"
  by (simp_all add: inertiaFactor_def safeDensity_def densityFactor_def dragFactor_def
      dragCoeff_def thermalRate_def halfH_def init_simState_def three_particles_def
      DEFAULT_PARAMS_def frame_time_def)

lemma nearFloor_conduction:
  assumes "nearFloor p"
  shows "temp (conduction three_particles (init_simState three_particles) frame_time p)
           = Fin (293 + 0.01144 * 20 * 0.95 * 0.016 * 57)"
proof -
  have "conduction three_particles (init_simState three_particles) frame_time p
          = p\<lparr>temp := lerp (Fin 293) (Fin 350) (Fin 0.01144 * Fin 20 * Fin 0.95 * frame_time)\<rparr>"
    using assms by (simp add: nearFloor_def conduction_def Let_def three_constants)
  then show ?thesis
    by (simp add: frame_time_def)
qed

lemma cooling_temp:
  "temp (cooling ps s dt p) = temp p
   \<or> temp (cooling ps s dt p) = lerp (temp p) (s_tempFluidInitial s) (thermalRate s * Fin 5 * dt)"
  by (simp add: cooling_def Let_def)

lemma nearFloor_thermal:
  assumes "nearFloor p"
  shows "\<exists>T. temp (thermalPhysics three_particles (init_simState three_particles) frame_time
                      False p) = Fin T \<and> 293.19 < T \<and> T < 293.2"
proof -
  define p1 where "p1 = conduction three_particles (init_simState three_particles) frame_time p"
  have t1: "temp p1 = Fin (293 + 0.01144 * 20 * 0.95 * 0.016 * 57)"
    unfolding p1_def using assms by (rule nearFloor_conduction)
  have th: "thermalPhysics three_particles (init_simState three_particles) frame_time False p
              = cooling three_particles (init_simState three_particles) frame_time p1"
    by (simp add: thermalPhysics_def bulkMixing_def p1_def)
  from cooling_temp [of three_particles "init_simState three_particles" frame_time p1]
  show ?thesis
  proof
    assume "temp (cooling three_particles (init_simState three_particles) frame_time p1) = temp p1"
    then have "temp (thermalPhysics three_particles (init_simState three_particles) frame_time
                      False p) = Fin (293 + 0.01144 * 20 * 0.95 * 0.016 * 57)"
      by (simp add: th t1)
    then show ?thesis
      by (intro exI [of _ "293 + 0.01144 * 20 * 0.95 * 0.016 * 57"]) simp
  next
    assume "temp (cooling three_particles (init_simState three_particles) frame_time p1)
              = lerp (temp p1) (s_tempFluidInitial (init_simState three_particles))
                  (thermalRate (init_simState three_particles) * Fin 5 * frame_time)"
    then have "temp (thermalPhysics three_particles (init_simState three_particles) frame_time
                      False p)
                 = lerp (Fin (293 + 0.01144 * 20 * 0.95 * 0.016 * 57)) (Fin 293)
                     (Fin (0.01144 * 5 * 0.016))"
      by (simp add: th t1 three_constants) (simp add: frame_time_def)
    then show ?thesis
      by (intro exI [of _ "(1 - 0.01144 * 5 * 0.016) * (293 + 0.01144 * 20 * 0.95 * 0.016 * 57)
                             + 0.01144 * 5 * 0.016 * 293"]) simp
  qed
qed

lemma jitter_bound:
  fixes u j :: real
  assumes "0 \<le> u" and "u < 1" and "0 \<le> j"
  shows "\<bar>(u - 0.5) * j\<bar> \<le> j / 2"
proof -
  have "\<bar>u - 0.5\<bar> \<le> 1 / 2"
    using assms by (simp add: abs_if)
  then have "\<bar>u - 0.5\<bar> * j \<le> 1 / 2 * j"
    using assms(3) by (rule mult_right_mono)
  then show ?thesis
    using assms(3) by (simp add: abs_mult)
qed

lemma nearFloor_forces:
  assumes "temp p = Fin T" and "293.19 < T" and "T < 293.2" and "random_ok rnd"
  shows "\<exists>fx fy fz. forces three_particles (init_simState three_particles) False rnd k p
                       = (Fin fx, Fin fy, Fin fz) \<and> 0.08 < fy \<and> fy < 0.12"
proof -
  have u: "0 \<le> rnd j \<and> rnd j < 1" for j
    using assms(4) by (simp add: random_ok_def)
  define j where "j = T / 500 * 0.05"
  define b where "b = 9.81 * 0.000207 * (T - 293) * 250"
  have j: "0 \<le> j" "j < 0.03"
    using assms(2,3) by (simp_all add: j_def)
  have b: "0.096 < b" "b < 0.102"
    using assms(2,3) by (simp_all add: b_def)
  have "\<bar>(rnd (k + 1) - 0.5) * j\<bar> \<le> j / 2"
    using u [of "k + 1"] j(1) by (intro jitter_bound) simp_all
  then have fy: "0.08 < b + (rnd (k + 1) - 0.5) * j" "b + (rnd (k + 1) - 0.5) * j < 0.12"
    using j b by (simp_all add: abs_le_iff)
  have "snd (boiling three_particles (init_simState three_particles) p) = Fin b"
    using assms(1-3) by (simp add: boiling_def buoyancy_def tempDiff_def three_constants b_def)
  then have "forces three_particles (init_simState three_particles) False rnd k p
               = (Fin ((rnd k - 0.5) * j), Fin (b + (rnd (k + 1) - 0.5) * j),
                  Fin ((rnd (k + 2) - 0.5) * j))"
    using assms(1) by (simp add: forces_no_convection Math_random_def j_def)
  with fy show ?thesis by blast
qed

lemma nearFloor_integration:
  assumes p: "vel_x p = Fin 0" "vel_y p = Fin 0" "vel_z p = Fin 0" "pos_y p = Fin (- 0.099)"
      "isFinite (pos_x p)" "isFinite (pos_z p)"
    and fy: "0.08 < fy" "fy < 0.12"
    and p3: "p3 = integration three_particles (init_simState three_particles) frame_time
                    (Fin fx, Fin fy, Fin fz) p"
  shows "\<exists>v y. vel_y p3 = Fin v \<and> 0 < v \<and> pos_y p3 = Fin y \<and> - 0.1 < y \<and> y < 0.1
           \<and> isFinite (pos_x p3) \<and> isFinite (pos_z p3) \<and> temp p3 = temp p"
proof -
  define c :: real where "c = 0.016 / 0.998 * (1 - 0.1002 / 0.998 * 0.016)"
  define v where "v = fy * c"
  have v: "0.001 < v" "v < 0.003"
    using fy by (simp_all add: v_def c_def)
  have "(Fin 0 + Fin fy * frame_time / Fin 0.998) * Fin (1 - 0.1002 / 0.998 * 0.016) = Fin v"
    by (simp add: frame_time_def v_def c_def)
  then have vy: "vel_y p3 = Fin v"
    using v by (simp add: p3 integration_def Let_def three_constants p clampVelocity_Fin)
  have vx: "\<exists>a. vel_x p3 = Fin a" "\<exists>a. vel_z p3 = Fin a"
    by (simp_all add: p3 integration_def Let_def three_constants p)
      (simp_all add: frame_time_def clampVelocity_Fin)
  have py: "pos_y p3 = pos_y p + vel_y p3 * frame_time"
    "pos_x p3 = pos_x p + vel_x p3 * frame_time" "pos_z p3 = pos_z p + vel_z p3 * frame_time"
    by (simp_all add: p3 integration_def Let_def)
  have y: "pos_y p3 = Fin (- 0.099 + v * 0.016)"
    by (simp add: py vy p frame_time_def)
  have "isFinite (pos_x p3)" "isFinite (pos_z p3)"
    using vx p(5,6) by (auto simp: py isFinite_iff frame_time_def)
  moreover have "- 0.1 < - 0.099 + v * 0.016" "- 0.099 + v * 0.016 < 0.1"
    using v by simp_all
  moreover have "temp p3 = temp p"
    by (simp add: p3)
  ultimately show ?thesis
    using vy y v by auto
qed

lemma walls_temp [simp]: "temp (walls ps p) = temp p"
  by (simp add: walls_def Let_def)

lemma nearFloor_update:
  assumes nf: "nearFloor p" and rnd: "random_ok rnd"
    and q: "q = fst (update_particle three_particles (init_simState three_particles) frame_time
                       False shm rnd k p)"
  shows "\<exists>T v. temp q = Fin T \<and> 293 < T \<and> vel_y q = Fin v \<and> 0 < v"
proof -
  define p1 where
    "p1 = thermalPhysics three_particles (init_simState three_particles) frame_time False p"
  define p2 where
    "p2 = p1\<lparr>pstate := fst (boiling three_particles (init_simState three_particles) p1)\<rparr>"
  obtain T where T: "temp p1 = Fin T" "293.19 < T" "T < 293.2"
    unfolding p1_def using nearFloor_thermal [OF nf] by blast
  obtain fx fy fz where f: "forces three_particles (init_simState three_particles) False rnd k p1
                              = (Fin fx, Fin fy, Fin fz)" "0.08 < fy" "fy < 0.12"
    using nearFloor_forces [OF T rnd] by blast
  define p3 where "p3 = integration three_particles (init_simState three_particles) frame_time
                          (Fin fx, Fin fy, Fin fz) p2"
  have p2: "vel_x p2 = Fin 0" "vel_y p2 = Fin 0" "vel_z p2 = Fin 0" "pos_y p2 = Fin (- 0.099)"
    "isFinite (pos_x p2)" "isFinite (pos_z p2)" "temp p2 = Fin T"
    using nf T(1) by (simp_all add: p2_def p1_def nearFloor_def)
  obtain v y where p3: "vel_y p3 = Fin v" "0 < v" "pos_y p3 = Fin y" "- 0.1 < y" "y < 0.1"
    "isFinite (pos_x p3)" "isFinite (pos_z p3)" "temp p3 = temp p2"
    using nearFloor_integration [OF p2(1-6) f(2,3) p3_def] by blast
  have fc: "ceiling_bounce three_particles
              (floor_bounce three_particles (init_simState three_particles) p3) = p3"
    using p3(3-5) by (simp add: floor_bounce_def ceiling_bounce_def three_constants)
  have bs: "beforeSafety three_particles (init_simState three_particles) frame_time False rnd k p
              = walls three_particles p3"
    by (simp add: beforeSafety_def Let_def p1_def [symmetric] p2_def [symmetric] f(1)
        p3_def [symmetric] fc)
  have "\<not> blownUp (walls three_particles (ceiling_bounce three_particles
                (floor_bounce three_particles (init_simState three_particles) p3)))"
    using p3 by (intro constrained_finite) (simp_all add: three_constants)
  then have "\<not> blownUp (walls three_particles p3)"
    by (simp add: fc)
  then have "q = visualization three_particles (init_simState three_particles) shm
                   (walls three_particles p3)"
    by (simp add: q update_particle_eq bs safety_def)
  then have "temp q = Fin T" "vel_y q = Fin v"
    using p3 p2(7) by (simp_all add: walls_vertical)
  with T(2) p3(2) show ?thesis
    by auto
qed

lemma scenario_sim:
  assumes "sim w = init_simState three_particles"
    and "\<forall>p \<in> set (particles w). nearFloor p" and "particles w \<noteq> []"
  shows "averaging (particles w) (smooth three_particles (sim w)) = init_simState three_particles"
proof -
  have "finite_params three_particles"
    by (simp add: finite_params_def three_particles_def DEFAULT_PARAMS_def)
  then have "smooth three_particles (sim w) = init_simState three_particles"
    by (simp add: assms(1) smooth_init)
  moreover have "frameAvgT (particles w) = Fin 293"
    using assms(2,3) by (intro frameAvgT_same_temp) (simp_all add: nearFloor_def)
  ultimately show ?thesis
    by (simp add: averaging_def three_constants)
qed

lemma particle_loop_member:
  "q \<in> set (fst (particle_loop ps s dt cc shm rnd k parts)) \<Longrightarrow>
     \<exists>j p. p \<in> set parts \<and> q = fst (update_particle ps s dt cc shm rnd j p)"
proof (induction parts arbitrary: k)
  case Nil
  then show ?case by simp
next
  case (Cons p rest)
  then show ?case
    by (fastforce simp: case_prod_beta)
qed

text \<open>
  C3. In the example scenario (three particles, the default configuration, an elapsed time of
  \<open>0.016\<close> seconds, no convection), with all particles at rest at \<open>y = -0.099\<close> with temperature
  \<open>293\<close>, at any finite horizontal position: after one frame, the temperature of every particle
  is above \<open>293\<close> and its vertical velocity is positive, for every outcome of the random
  jitter.
\<close>

theorem example_scenario:
  assumes "params props = three_particles"
    and "\<not> canConvect (computedValues props)"
    and "sim w = init_simState three_particles"
    and "length (particles w) = 3"
    and "\<forall>p \<in> set (particles w). nearFloor p"
    and "random_ok rnd"
    and "q \<in> set (particles (tick props (Fin 0.016) rnd w))"
  shows "\<exists>T v. temp q = Fin T \<and> 293 < T \<and> vel_y q = Fin v \<and> 0 < v"
proof -
  have ne: "particles w \<noteq> []"
    using assms(4) by auto
  note s = scenario_sim [OF assms(3,5) ne]
  have dt: "Math_min (Fin 0.016) (Fin 0.05) = frame_time"
    by (simp add: frame_time_def)
  have "q \<in> set (fst (particle_loop three_particles (init_simState three_particles) frame_time
                        False (showHeatMap props) rnd (drawn w) (particles w)))"
    using assms(7,2) unfolding particles_tick assms(1) dt s by simp
  then obtain j p where "p \<in> set (particles w)"
    "q = fst (update_particle three_particles (init_simState three_particles) frame_time False
               (showHeatMap props) rnd j p)"
    using particle_loop_member by blast
  then show ?thesis
    using assms(5,6) by (intro nearFloor_update [of p rnd q "showHeatMap props" j]) simp_all
qed

theorem example_scenario_witness:
  "params scenario_props = three_particles
   \<and> \<not> canConvect (computedValues scenario_props)
   \<and> sim scenario_world = init_simState three_particles
   \<and> length (particles scenario_world) = 3
   \<and> particles scenario_world = [floor_particle, floor_particle, floor_particle]
   \<and> nearFloor floor_particle
   \<and> random_ok zero_random
   \<and> particles (tick scenario_props (Fin 0.016) zero_random scenario_world) ! 0
        \<in> set (particles (tick scenario_props (Fin 0.016) zero_random scenario_world))
   \<and> (\<exists>T v. temp (particles (tick scenario_props (Fin 0.016) zero_random scenario_world) ! 0)
                 = Fin T \<and> 293 < T
             \<and> vel_y (particles (tick scenario_props (Fin 0.016) zero_random scenario_world) ! 0)
                 = Fin v \<and> 0 < v)"
proof -
  have h1: "params scenario_props = three_particles"
    and h2: "\<not> canConvect (computedValues scenario_props)"
    by (simp_all add: scenario_props_def canConvect_def)
  have h3: "sim scenario_world = init_simState three_particles"
    and h4: "length (particles scenario_world) = 3"
    by (simp_all add: scenario_world_def)
  have h5: "\<forall>p \<in> set (particles scenario_world). nearFloor p"
    by (simp add: scenario_world_def nearFloor_def floor_particle_def moving_particle_def)
  have h7: "particles (tick scenario_props (Fin 0.016) zero_random scenario_world) ! 0
        \<in> set (particles (tick scenario_props (Fin 0.016) zero_random scenario_world))"
    by (simp add: length_particles_tick h4)
  have h8: "particles scenario_world = [floor_particle, floor_particle, floor_particle]"
    "nearFloor floor_particle"
    by (simp_all add: scenario_world_def nearFloor_def floor_particle_def moving_particle_def)
  from example_scenario [OF h1 h2 h3 h4 h5 random_ok_zero h7] h1 h2 h3 h4 h7 h8 random_ok_zero
  show ?thesis by blast
qed

end
